theory Spec2Isabelle
  imports Main
begin

section \<open>Python values and exceptions\<close>

text \<open>
  The backend (\<^verbatim>\<open>mattermost.py\<close>) is Python. A raise is a value of the sum type
  \<open>exn + 'a\<close> (\<open>Inl\<close> the exception). \<open>exn\<close> lists the classes derived from
  \<^verbatim>\<open>Exception\<close> that the modelled code can raise; the exceptions of the platform
  driver (imported at lines 13-16) are \<open>DriverError\<close>.
\<close>

datatype platform_error =
    InvalidOrMissingParameters | NoAccessTokenProvided | NotEnoughPermissions
  | FeatureDisabled | ContentTooLarge | ResourceNotFound | OtherDriverError

datatype exn =
    KeyError | TypeError | ValueError | AttributeError | JSONDecodeError
  | UserDoesNotExistError | RoomDoesNotExistError | PlainException
  | DriverError platform_error

section \<open>Outbound chunking: \<^verbatim>\<open>prepare_message_body\<close>\<close>

text \<open>The fence marker \<^verbatim>\<open>'```'\<close> (three characters 0x60) and the two repair strings
  \<^verbatim>\<open>'```\n'\<close> (line 469) and \<^verbatim>\<open>'\n```\n'\<close> (lines 462, 473).\<close>

definition fence :: string where
  "fence = [CHR 0x60, CHR 0x60, CHR 0x60]"

definition fence_open :: string where
  "fence_open = fence @ [CHR 0x0A]"

definition fence_close :: string where
  "fence_close = CHR 0x0A # fence @ [CHR 0x0A]"

text \<open>\<^verbatim>\<open>s.startswith(p)\<close>.\<close>

definition startswith :: "string \<Rightarrow> string \<Rightarrow> bool" where
  "startswith s p = (take (length p) s = p)"

text \<open>\<^verbatim>\<open>s.count(sub)\<close>: the number of non-overlapping occurrences of \<open>sub\<close> in
  \<open>s\<close>, scanning from the left (for the empty \<open>sub\<close> Python answers \<open>len(s) + 1\<close>).\<close>

function str_count :: "string \<Rightarrow> string \<Rightarrow> nat" where
  "str_count s sub =
     (if sub = [] then length s + 1
      else if s = [] then 0
      else if take (length sub) s = sub then 1 + str_count (drop (length sub) s) sub
      else str_count (tl s) sub)"
  by pat_completeness auto
termination
  by (relation "measure (\<lambda>(s, sub). length s)") auto

declare str_count.simps [simp del]

text \<open>
  \<^verbatim>\<open>split_string_after\<close> is imported from \<^verbatim>\<open>errbot.utils\<close> (line 11), a library
  outside this repository, so \<^verbatim>\<open>prepare_message_body\<close> takes the splitter as a
  parameter. The library's function is
  \<^verbatim>\<open>for start in range(0, max(len(str_), 1), n): yield str_[start:start + n]\<close>;
  \<open>split_string_after\<close> below is that generator, consumed by \<^verbatim>\<open>list(...)\<close>:
  \<^verbatim>\<open>range\<close> raises ValueError for a step of zero and is empty for a negative step.
\<close>

definition py_range_step :: "nat \<Rightarrow> nat \<Rightarrow> nat list" where
  "py_range_step stop step = map (\<lambda>k. k * step) [0 ..< (stop + step - 1) div step]"

definition split_string_after :: "string \<Rightarrow> int \<Rightarrow> exn + string list" where
  "split_string_after str n =
     (if n = 0 then Inl ValueError
      else if n < 0 then Inr []
      else Inr (map (\<lambda>start. take (nat n) (drop start str))
                  (py_range_step (max (length str) 1) (nat n))))"

text \<open>The body of the loop at lines 464-473, for one part.\<close>

definition fix_part :: "bool \<Rightarrow> string \<Rightarrow> string" where
  "fix_part fixed_format part =
     (let starts_with_code = startswith part fence;
          p = (if fixed_format \<and> \<not> starts_with_code then fence_open @ part else part)
      in if str_count p fence mod 2 \<noteq> 0 then p @ fence_close else p)"

definition prepare_message_body ::
  "(string \<Rightarrow> int \<Rightarrow> exn + string list) \<Rightarrow> string \<Rightarrow> int \<Rightarrow> exn + string list" where
  "prepare_message_body split body size_limit =
     (let fixed_format = startswith body fence in
      case split body size_limit of
        Inl e \<Rightarrow> Inl e
      | Inr parts \<Rightarrow>
          if length parts = 1 then
            (if str_count (parts ! 0) fence mod 2 \<noteq> 0
             then Inr [parts ! 0 @ fence_close]
             else Inr parts)
          else Inr (map (fix_part fixed_format) parts))"


section \<open>Event payloads: JSON values with Python's operations\<close>

text \<open>
  What \<^verbatim>\<open>json.loads\<close> returns. \<open>JNull\<close> is \<^verbatim>\<open>None\<close>; an object is a \<^verbatim>\<open>dict\<close>
  with string keys, kept as an association list read with \<open>map_of\<close>. Numbers are
  integers: the handlers never compute with a number, so floats are left out.
  Characters are \<open>char\<close>s, one per code point.
\<close>

datatype json =
    JNull | JBool bool | JNum int | JStr string
  | JArr "json list" | JObj "(string \<times> json) list"

text \<open>\<^verbatim>\<open>bool(v)\<close>, as \<^verbatim>\<open>if v:\<close> and \<^verbatim>\<open>not v\<close> read it.\<close>

fun truthy :: "json \<Rightarrow> bool" where
  "truthy JNull = False"
| "truthy (JBool b) = b"
| "truthy (JNum n) = (n \<noteq> 0)"
| "truthy (JStr s) = (s \<noteq> [])"
| "truthy (JArr xs) = (xs \<noteq> [])"
| "truthy (JObj m) = (m \<noteq> [])"

text \<open>Lists and dicts cannot be dictionary or cache keys (\<^verbatim>\<open>TypeError: unhashable type\<close>).\<close>

fun hashable :: "json \<Rightarrow> bool" where
  "hashable (JArr xs) = False"
| "hashable (JObj m) = False"
| "hashable v = True"

text \<open>\<^verbatim>\<open>sub in s\<close> for two strings: \<open>sub\<close> occurs in \<open>s\<close>.\<close>

fun is_substr :: "string \<Rightarrow> string \<Rightarrow> bool" where
  "is_substr sub [] = (sub = [])"
| "is_substr sub (c # cs) = (startswith (c # cs) sub \<or> is_substr sub cs)"

text \<open>\<^verbatim>\<open>k in v\<close> for a string \<open>k\<close>: a key of a dict, an element of a list, a substring
  of a string; \<^verbatim>\<open>TypeError\<close> for \<^verbatim>\<open>None\<close>, a boolean or a number.\<close>

fun py_in :: "string \<Rightarrow> json \<Rightarrow> exn + bool" where
  "py_in k (JObj m) = Inr (map_of m k \<noteq> None)"
| "py_in k (JArr xs) = Inr (JStr k \<in> set xs)"
| "py_in k (JStr s) = Inr (is_substr k s)"
| "py_in k v = Inl TypeError"

text \<open>\<^verbatim>\<open>v[k]\<close> for a string \<open>k\<close>: \<^verbatim>\<open>KeyError\<close> for a dict without the key,
  \<^verbatim>\<open>TypeError\<close> for every value that is not a dict.\<close>

fun subscript :: "json \<Rightarrow> string \<Rightarrow> exn + json" where
  "subscript (JObj m) k = (case map_of m k of None \<Rightarrow> Inl KeyError | Some v \<Rightarrow> Inr v)"
| "subscript v k = Inl TypeError"

text \<open>
  \<^verbatim>\<open>json.loads\<close> is the standard library's decoder; the model takes it as the parameter
  \<open>loads\<close>, \<open>None\<close> where it raises \<^verbatim>\<open>JSONDecodeError\<close>. Applied to a value that is
  not a string (\<^verbatim>\<open>json.loads(data['post'])\<close>, line 237) it raises \<^verbatim>\<open>TypeError\<close>.
\<close>

type_synonym decoder = "string \<Rightarrow> json option"

definition json_loads :: "decoder \<Rightarrow> json \<Rightarrow> exn + json" where
  "json_loads loads v =
     (case v of
        JStr s \<Rightarrow> (case loads s of None \<Rightarrow> Inl JSONDecodeError | Some j \<Rightarrow> Inr j)
      | _ \<Rightarrow> Inl TypeError)"

text \<open>\<^verbatim>\<open>'{x:s}'.format(x=v)\<close>: only a string has the format code \<^verbatim>\<open>s\<close>.\<close>

fun format_s :: "json \<Rightarrow> exn + string" where
  "format_s (JStr s) = Inr s"
| "format_s (JNum n) = Inl ValueError"
| "format_s (JBool b) = Inl ValueError"
| "format_s v = Inl TypeError"

text \<open>\<^verbatim>\<open>str.isspace\<close> on the code points below 256, \<^verbatim>\<open>s.strip()\<close> and
  \<^verbatim>\<open>s.lstrip('@')\<close>.\<close>

definition py_isspace :: "char \<Rightarrow> bool" where
  "py_isspace c =
     (let n = of_char c :: nat
      in (9 \<le> n \<and> n \<le> 13) \<or> (28 \<le> n \<and> n \<le> 32) \<or> n = 133 \<or> n = 160)"

definition strip :: "string \<Rightarrow> string" where
  "strip s = rev (dropWhile py_isspace (rev (dropWhile py_isspace s)))"

definition lstrip_at :: "string \<Rightarrow> string" where
  "lstrip_at s = dropWhile (\<lambda>c. c = CHR ''@'') s"

section \<open>Identifiers, messages and the backend's state\<close>

text \<open>\<^verbatim>\<open>MattermostPerson\<close> (lines 29-101): the three stored fields; an argument left
  out is \<^verbatim>\<open>None\<close>.\<close>

record person =
  person_userid :: json
  person_channelid :: json
  person_teamid :: json

text \<open>\<^verbatim>\<open>MattermostRoom\<close> (lines 558-576): \<^verbatim>\<open>_name\<close>, \<^verbatim>\<open>_teamid\<close>, \<^verbatim>\<open>_id\<close>.\<close>

record room =
  room_name :: json
  room_teamid :: json
  room_id :: json

text \<open>The three identifier classes; a \<^verbatim>\<open>MattermostRoomOccupant\<close> is a person with
  its \<^verbatim>\<open>_room\<close> (lines 104-111).\<close>

datatype mm_identifier =
    is_Person: MattermostPerson person
  | is_RoomOccupant: MattermostRoomOccupant person room
  | is_Room: MattermostRoom room

text \<open>errbot's \<^verbatim>\<open>Message\<close> as the handler fills it (lines 259-282).\<close>

record message =
  msg_body :: json
  frm :: mm_identifier
  to :: mm_identifier
  extras_mattermost_event :: json
  extras_url :: string
  extras_attachments :: "json option"

datatype presence_status = ONLINE | AWAY

text \<open>The callbacks of the bot framework (\<^verbatim>\<open>ErrBot\<close>), recorded in the order they fire.\<close>

datatype callback =
    Callback_message message
  | Callback_mention message "mm_identifier list"
  | Callback_presence mm_identifier presence_status
  | Callback_room_joined
  | Callback_room_left
  | Connect_callback

datatype loglevel = DEBUG | INFO | WARNING | ERROR | EXCEPTION

text \<open>
  The platform client (\<^verbatim>\<open>mattermostdriver.Driver\<close>) is an external collaborator. A call
  is recorded in the state; the answer is a parameter of the model, a function of the
  calls made so far and of the call.
\<close>

datatype call =
    Get_channel json
  | Get_channel_by_name json string
  | Get_user_by_username string
  | Create_direct_message_channel json json

type_synonym platform = "call list \<Rightarrow> call \<Rightarrow> platform_error + json"

text \<open>
  \<^verbatim>\<open>MattermostBackend\<close> (lines 131-147) once \<^verbatim>\<open>serve_once\<close> has logged in: the bound
  team's id and name, the bot's own user id (\<^verbatim>\<open>bot_identifier.userid\<close>), the driver's
  options (the port as \<^verbatim>\<open>str\<close> prints it), the \<^verbatim>\<open>lru_cache\<close> of
  \<^verbatim>\<open>get_direct_channel\<close> (most recently used first), and the traces of platform calls,
  callbacks and log records.
\<close>

record backend =
  teamid :: string
  team :: string
  bot_userid :: string
  scheme :: string
  url :: string
  port :: string
  direct_cache :: "((json \<times> json) \<times> json) list"
  calls :: "call list"
  callbacks :: "callback list"
  logs :: "loglevel list"

definition log :: "loglevel \<Rightarrow> backend \<Rightarrow> backend" where
  "log l st = st\<lparr>logs := logs st @ [l]\<rparr>"

definition fire :: "callback \<Rightarrow> backend \<Rightarrow> backend" where
  "fire c st = st\<lparr>callbacks := callbacks st @ [c]\<rparr>"

definition api :: "platform \<Rightarrow> call \<Rightarrow> backend \<Rightarrow> (platform_error + json) \<times> backend" where
  "api plat c st = (plat (calls st) c, st\<lparr>calls := calls st @ [c]\<rparr>)"

text \<open>\<^verbatim>\<open>bot_identifier\<close> (line 390).\<close>

definition bot_identifier :: "backend \<Rightarrow> person" where
  "bot_identifier st =
     \<lparr>person_userid = JStr (bot_userid st), person_channelid = JNull,
      person_teamid = JStr (teamid st)\<rparr>"


section \<open>Identity resolution\<close>

text \<open>\<^verbatim>\<open>channelid_to_channelname\<close> (lines 536-543) and
  \<^verbatim>\<open>channelname_to_channelid\<close> (lines 545-552).\<close>

definition channelid_to_channelname ::
  "platform \<Rightarrow> json \<Rightarrow> backend \<Rightarrow> (exn + json) \<times> backend" where
  "channelid_to_channelname plat channelid st =
     (case api plat (Get_channel channelid) st of
        (Inl e, st') \<Rightarrow> (Inl (DriverError e), st')
      | (Inr channel, st') \<Rightarrow>
          (case py_in ''name'' channel of
             Inl e \<Rightarrow> (Inl e, st')
           | Inr False \<Rightarrow> (Inl RoomDoesNotExistError, st')
           | Inr True \<Rightarrow> (subscript channel ''name'', st')))"

definition channelname_to_channelid ::
  "platform \<Rightarrow> string \<Rightarrow> backend \<Rightarrow> (exn + json) \<times> backend" where
  "channelname_to_channelid plat name st =
     (case api plat (Get_channel_by_name (JStr (teamid st)) name) st of
        (Inl e, st') \<Rightarrow> (Inl (DriverError e), st')
      | (Inr channel, st') \<Rightarrow>
          (case py_in ''id'' channel of
             Inl e \<Rightarrow> (Inl e, st')
           | Inr False \<Rightarrow> (Inl RoomDoesNotExistError, st')
           | Inr True \<Rightarrow> (subscript channel ''id'', st')))"

text \<open>
  \<^verbatim>\<open>MattermostRoom.__init__(name, channelid, teamid, bot)\<close> (lines 559-576); \<open>JNull\<close>
  is an argument left \<^verbatim>\<open>None\<close>, and \<^verbatim>\<open>bot\<close> is the backend. \<^verbatim>\<open>name.startswith\<close>
  on a name that is not a string raises \<^verbatim>\<open>AttributeError\<close>.
\<close>

definition MattermostRoom_init ::
  "platform \<Rightarrow> json \<Rightarrow> json \<Rightarrow> json \<Rightarrow> backend \<Rightarrow> (exn + room) \<times> backend" where
  "MattermostRoom_init plat name channelid teamid' st =
     (if channelid \<noteq> JNull \<and> name \<noteq> JNull then (Inl ValueError, st)
      else if teamid' = JNull then (Inl ValueError, st)
      else if name \<noteq> JNull then
        (case name of
           JStr n \<Rightarrow>
             (Inr \<lparr>room_name = JStr (if startswith n ''~'' then drop 1 n else n),
                   room_teamid = teamid', room_id = channelid\<rparr>, st)
         | _ \<Rightarrow> (Inl AttributeError, st))
      else
        (case channelid_to_channelname plat channelid st of
           (Inl e, st') \<Rightarrow> (Inl e, st')
         | (Inr n, st') \<Rightarrow>
             (Inr \<lparr>room_name = n, room_teamid = teamid', room_id = channelid\<rparr>, st')))"

text \<open>\<^verbatim>\<open>MattermostRoomOccupant.__init__(client, teamid, userid, channelid, bot)\<close>
  (lines 108-111).\<close>

definition MattermostRoomOccupant_init ::
  "platform \<Rightarrow> json \<Rightarrow> json \<Rightarrow> json \<Rightarrow> backend \<Rightarrow> (exn + mm_identifier) \<times> backend" where
  "MattermostRoomOccupant_init plat teamid' userid channelid st =
     (case MattermostRoom_init plat JNull channelid teamid' st of
        (Inl e, st') \<Rightarrow> (Inl e, st')
      | (Inr r, st') \<Rightarrow>
          (Inr (MattermostRoomOccupant
                  \<lparr>person_userid = userid, person_channelid = channelid,
                   person_teamid = teamid'\<rparr> r), st'))"

text \<open>\<^verbatim>\<open>username_to_userid\<close> (lines 157-163).\<close>

definition username_to_userid ::
  "platform \<Rightarrow> string \<Rightarrow> backend \<Rightarrow> (exn + json) \<times> backend" where
  "username_to_userid plat name st =
     (case api plat (Get_user_by_username (lstrip_at name)) st of
        (Inl e, st') \<Rightarrow> (Inl (DriverError e), st')
      | (Inr user, st') \<Rightarrow>
          (if user = JNull then (Inl UserDoesNotExistError, st')
           else (subscript user ''id'', st')))"

text \<open>
  \<^verbatim>\<open>@lru_cache(1024)\<close> (line 315). The backend is a singleton (its \<^verbatim>\<open>__hash__\<close> is
  constant, line 554), so the key is the pair of arguments. Python compares keys with
  \<^verbatim>\<open>==\<close>, under which \<^verbatim>\<open>True == 1\<close> and \<^verbatim>\<open>False == 0\<close>: \<open>cache_key\<close> maps a
  value to its representative. A hit moves the entry to the front; a miss calls the
  function, stores the result in front and keeps the 1024 most recently used entries;
  an exception is not stored.
\<close>

fun cache_key :: "json \<Rightarrow> json" where
  "cache_key (JBool b) = JNum (if b then 1 else 0)"
| "cache_key v = v"

definition lru_maxsize :: nat where
  "lru_maxsize = 1024"

text \<open>\<^verbatim>\<open>get_direct_channel\<close> (lines 315-326).\<close>

definition get_direct_channel ::
  "platform \<Rightarrow> json \<Rightarrow> json \<Rightarrow> backend \<Rightarrow> (exn + json) \<times> backend" where
  "get_direct_channel plat userid other_user_id st =
     (if \<not> hashable userid \<or> \<not> hashable other_user_id then (Inl TypeError, st)
      else
        (let k = (cache_key userid, cache_key other_user_id) in
         case map_of (direct_cache st) k of
           Some channel \<Rightarrow>
             (Inr channel,
              st\<lparr>direct_cache := (k, channel) # filter (\<lambda>kv. fst kv \<noteq> k) (direct_cache st)\<rparr>)
         | None \<Rightarrow>
             (case api plat (Create_direct_message_channel userid other_user_id) st of
                (Inl e, st') \<Rightarrow>
                  (if e = InvalidOrMissingParameters \<or> e = NotEnoughPermissions
                   then (Inl RoomDoesNotExistError, st')
                   else (Inl (DriverError e), st'))
              | (Inr channel, st') \<Rightarrow>
                  (Inr channel,
                   st'\<lparr>direct_cache := take lru_maxsize ((k, channel) # direct_cache st')\<rparr>))))"

text \<open>\<^verbatim>\<open>build_identifier\<close> (lines 328-362). \<^verbatim>\<open>txtrep.strip()\<close> on a value that is
  not a string raises \<^verbatim>\<open>AttributeError\<close>; \<open>PlainException\<close> is the
  \<^verbatim>\<open>raise Exception(...)\<close> of line 360.\<close>

definition build_identifier ::
  "platform \<Rightarrow> json \<Rightarrow> backend \<Rightarrow> (exn + mm_identifier) \<times> backend" where
  "build_identifier plat txtrep' st =
     (case txtrep' of
        JStr s \<Rightarrow>
          (let txtrep = strip s in
           if startswith txtrep ''~'' then
             (case channelname_to_channelid plat (drop 1 txtrep) st of
                (Inl e, st') \<Rightarrow> (Inl e, st')
              | (Inr channelid, st') \<Rightarrow>
                  (if channelid \<noteq> JNull then
                     (case MattermostRoom_init plat JNull channelid (JStr (teamid st')) st' of
                        (Inl e, st'') \<Rightarrow> (Inl e, st'')
                      | (Inr r, st'') \<Rightarrow> (Inr (MattermostRoom r), st''))
                   else (Inl PlainException, st')))
           else
             (case (if startswith txtrep ''@''
                    then username_to_userid plat (drop 1 txtrep) st
                    else (Inr (JStr txtrep), st)) of
                (Inl e, st') \<Rightarrow> (Inl e, st')
              | (Inr userid, st') \<Rightarrow>
                  (if userid \<noteq> JNull then
                     (case get_direct_channel plat (JStr (bot_userid st')) userid st' of
                        (Inl e, st'') \<Rightarrow> (Inl e, st'')
                      | (Inr channel, st'') \<Rightarrow>
                          (case subscript channel ''id'' of
                             Inl e \<Rightarrow> (Inl e, st'')
                           | Inr channelid \<Rightarrow>
                               (Inr (MattermostPerson
                                       \<lparr>person_userid = userid, person_channelid = channelid,
                                        person_teamid = JStr (teamid st'')\<rparr>), st'')))
                   else (Inl PlainException, st'))))
      | _ \<Rightarrow> (Inl AttributeError, st))"

text \<open>\<^verbatim>\<open>for mention in mentions\<close>: the elements of a list, the keys of a dict, the
  characters of a string; anything else is not iterable.\<close>

fun py_iter :: "json \<Rightarrow> exn + json list" where
  "py_iter (JArr xs) = Inr xs"
| "py_iter (JObj m) = Inr (map (\<lambda>kv. JStr (fst kv)) m)"
| "py_iter (JStr s) = Inr (map (\<lambda>c. JStr [c]) s)"
| "py_iter v = Inl TypeError"

text \<open>\<^verbatim>\<open>mentions_build_identifier\<close> (lines 364-371): the loop, then the function.\<close>

fun mentions_loop ::
  "platform \<Rightarrow> json list \<Rightarrow> mm_identifier list \<Rightarrow> backend
     \<Rightarrow> (exn + mm_identifier list) \<times> backend" where
  "mentions_loop plat [] identifier st = (Inr identifier, st)"
| "mentions_loop plat (mention # rest) identifier st =
     (if mention \<noteq> JStr (bot_userid st) then
        (case build_identifier plat mention st of
           (Inl e, st') \<Rightarrow> (Inl e, st')
         | (Inr i, st') \<Rightarrow> mentions_loop plat rest (identifier @ [i]) st')
      else mentions_loop plat rest identifier st)"

definition mentions_build_identifier ::
  "platform \<Rightarrow> json \<Rightarrow> backend \<Rightarrow> (exn + mm_identifier list) \<times> backend" where
  "mentions_build_identifier plat mentions st =
     (case py_iter mentions of
        Inl e \<Rightarrow> (Inl e, st)
      | Inr ms \<Rightarrow> mentions_loop plat ms [] st)"


section \<open>Event handlers\<close>

text \<open>
  A handler either raises, returns early (the event is dropped, with the level of the
  one log record written on that path) or goes on with its local variables.
  \<open>bind_result\<close> goes on with the value of an expression unless it raised,
  \<open>bind_flow\<close> with the value of a block of statements unless it raised or returned.
\<close>

datatype 'a flow = Raise exn | Return loglevel | Next 'a

definition bind_result :: "exn + 'a \<Rightarrow> ('a \<Rightarrow> 'b flow) \<Rightarrow> 'b flow" where
  "bind_result x f = (case x of Inl e \<Rightarrow> Raise e | Inr v \<Rightarrow> f v)"

definition bind_flow :: "'a flow \<Rightarrow> ('a \<Rightarrow> 'b flow) \<Rightarrow> 'b flow" where
  "bind_flow x f = (case x of Raise e \<Rightarrow> Raise e | Return l \<Rightarrow> Return l | Next v \<Rightarrow> f v)"

text \<open>
  \<^verbatim>\<open>_message_event_handler\<close>, lines 207-229: \<open>data\<close>, the cross-team filter,
  \<open>channelid\<close>, \<open>channel_type\<close> and \<open>channel\<close>. The result is
  \<open>(data, channelid, channel_type, channel)\<close>.
\<close>

definition read_channel :: "string \<Rightarrow> json \<Rightarrow> (json \<times> json \<times> json \<times> json) flow" where
  "read_channel bound_teamid message =
     bind_result (subscript message ''data'') (\<lambda>data.
     bind_result (subscript data ''team_id'') (\<lambda>team_id.
     if team_id \<noteq> JStr [] \<and> JStr bound_teamid \<noteq> team_id then Return INFO else
     bind_result (subscript message ''broadcast'') (\<lambda>broadcast.
     bind_flow
       (bind_result (py_in ''channel_id'' data) (\<lambda>in_data.
          if in_data then bind_result (subscript data ''channel_id'') Next
          else bind_result (py_in ''channel_id'' broadcast) (\<lambda>in_broadcast.
            if in_broadcast then bind_result (subscript broadcast ''channel_id'') Next
            else Return ERROR)))
       (\<lambda>channelid.
     bind_result (subscript data ''channel_type'') (\<lambda>channel_type.
     if channel_type \<noteq> JStr ''D'' then
       bind_result (subscript data ''channel_name'') (\<lambda>channel.
         Next (data, channelid, channel_type, channel))
     else Next (data, channelid, channel_type, channelid))))))"

text \<open>
  Lines 231-252: the embedded post and the sender id. The result is
  \<open>(text, post_id, file_ids, userid)\<close>. Line 247 assigns \<^verbatim>\<open>data['user_id']\<close> to
  \<open>userid\<close> whenever \<open>data\<close> has the key, after the post has been read.
\<close>

definition read_embedded_post :: "decoder \<Rightarrow> json \<Rightarrow> (json \<times> json \<times> json \<times> json) flow" where
  "read_embedded_post loads data =
     bind_result (subscript data ''post'') (\<lambda>raw.
     bind_result (json_loads loads raw) (\<lambda>post.
     bind_result (subscript post ''message'') (\<lambda>text.
     bind_result (subscript post ''user_id'') (\<lambda>userid.
     bind_result (py_in ''file_ids'' post) (\<lambda>has_files.
     bind_result (if has_files then subscript post ''file_ids'' else Inr JNull) (\<lambda>file_ids.
     bind_result (subscript post ''id'') (\<lambda>post_id.
     bind_result (py_in ''type'' post) (\<lambda>has_type.
     bind_result (if has_type then subscript post ''type'' else Inr JNull) (\<lambda>type.
     if has_type \<and> type = JStr ''system_add_remove'' then Return INFO
     else Next (text, post_id, file_ids, userid))))))))))"

definition read_post :: "decoder \<Rightarrow> json \<Rightarrow> (json \<times> json \<times> json \<times> json) flow" where
  "read_post loads data =
     bind_result (py_in ''post'' data) (\<lambda>has_post.
     bind_flow
       (if has_post then read_embedded_post loads data
        else Next (JStr [], JStr [], JNull, JNull))
       (\<lambda>(text, post_id, file_ids, userid').
     bind_result (py_in ''user_id'' data) (\<lambda>has_user_id.
     bind_result (if has_user_id then subscript data ''user_id'' else Inr userid') (\<lambda>userid.
     if \<not> truthy userid then Return ERROR
     else Next (text, post_id, file_ids, userid)))))"

text \<open>Lines 254-257: the mentions.\<close>

definition read_mentions ::
  "decoder \<Rightarrow> platform \<Rightarrow> json \<Rightarrow> backend \<Rightarrow> (exn + mm_identifier list) \<times> backend" where
  "read_mentions loads plat data st =
     (case py_in ''mentions'' data of
        Inl e \<Rightarrow> (Inl e, st)
      | Inr False \<Rightarrow> (Inr [], st)
      | Inr True \<Rightarrow>
          (case subscript data ''mentions'' of
             Inl e \<Rightarrow> (Inl e, st)
           | Inr raw \<Rightarrow>
               (case json_loads loads raw of
                  Inl e \<Rightarrow> (Inl e, st)
                | Inr ms \<Rightarrow> mentions_build_identifier plat ms st)))"

text \<open>Lines 263-269: the permalink.\<close>

definition permalink :: "backend \<Rightarrow> json \<Rightarrow> exn + string" where
  "permalink st post_id =
     (case format_s post_id of
        Inl e \<Rightarrow> Inl e
      | Inr postid \<Rightarrow>
          Inr (scheme st @ ''://'' @ url st @ '':'' @ port st @ ''/'' @ team st
               @ ''/pl/'' @ postid))"

text \<open>The local variables that reach line 276, the addressing step.\<close>

record draft =
  d_event :: json
  d_channel_type :: json
  d_channelid :: json
  d_channel :: json
  d_userid :: json
  d_text :: json
  d_url :: string
  d_attachments :: "json option"
  d_mentions :: "mm_identifier list"

text \<open>Lines 254-273, after the sender id is known: the mentions and the message.\<close>

definition build_draft ::
  "decoder \<Rightarrow> platform \<Rightarrow> json \<Rightarrow> (json \<times> json \<times> json \<times> json)
     \<Rightarrow> (json \<times> json \<times> json \<times> json) \<Rightarrow> backend \<Rightarrow> draft flow \<times> backend" where
  "build_draft loads plat message c p st =
     (case c of (data, channelid, channel_type, channel) \<Rightarrow>
      (case p of (text, post_id, file_ids, userid) \<Rightarrow>
       (case read_mentions loads plat data st of
          (Inl e, st') \<Rightarrow> (Raise e, st')
        | (Inr mentions, st') \<Rightarrow>
            (case permalink st' post_id of
               Inl e \<Rightarrow> (Raise e, st')
             | Inr link \<Rightarrow>
                 (Next \<lparr>d_event = message, d_channel_type = channel_type,
                        d_channelid = channelid, d_channel = channel, d_userid = userid,
                        d_text = text, d_url = link,
                        d_attachments = (if truthy file_ids then Some file_ids else None),
                        d_mentions = mentions\<rparr>, st')))))"

text \<open>Lines 206-273: everything before the addressing step.\<close>

definition prepare ::
  "decoder \<Rightarrow> platform \<Rightarrow> json \<Rightarrow> backend \<Rightarrow> draft flow \<times> backend" where
  "prepare loads plat message st0 =
     (let st = log DEBUG st0 in
      case read_channel (teamid st) message of
        Raise e \<Rightarrow> (Raise e, st)
      | Return l \<Rightarrow> (Return l, log l st)
      | Next c \<Rightarrow>
          (case read_post loads (fst c) of
             Raise e \<Rightarrow> (Raise e, st)
           | Return l \<Rightarrow> (Return l, log l st)
           | Next p \<Rightarrow> build_draft loads plat message c p st))"

definition draft_message :: "draft \<Rightarrow> mm_identifier \<Rightarrow> mm_identifier \<Rightarrow> message" where
  "draft_message d sender recipient =
     \<lparr>msg_body = d_text d, frm = sender, to = recipient,
      extras_mattermost_event = d_event d, extras_url = d_url d,
      extras_attachments = d_attachments d\<rparr>"

text \<open>Lines 290-293: the message callback, then the mention callback.\<close>

definition emit :: "message \<Rightarrow> mm_identifier list \<Rightarrow> backend \<Rightarrow> (exn + unit) \<times> backend" where
  "emit msg mentions st =
     (let st' = fire (Callback_message msg) st
      in (Inr (), if mentions \<noteq> [] then fire (Callback_mention msg mentions) st' else st'))"

text \<open>Lines 276-293: the addressing step.\<close>

definition address :: "platform \<Rightarrow> draft \<Rightarrow> backend \<Rightarrow> (exn + unit) \<times> backend" where
  "address plat d st =
     (if d_channel_type d = JStr ''D'' then
        emit (draft_message d
                (MattermostPerson
                   \<lparr>person_userid = d_userid d, person_channelid = d_channelid d,
                    person_teamid = JStr (teamid st)\<rparr>)
                (MattermostPerson
                   \<lparr>person_userid = JStr (bot_userid st), person_channelid = d_channelid d,
                    person_teamid = JStr (teamid st)\<rparr>))
             (d_mentions d) st
      else if d_channel_type d = JStr ''O'' \<or> d_channel_type d = JStr ''P'' then
        (case MattermostRoomOccupant_init plat (JStr (teamid st)) (d_userid d)
                (d_channelid d) st of
           (Inl e, st') \<Rightarrow> (Inl e, st')
         | (Inr sender, st') \<Rightarrow>
             (case MattermostRoom_init plat (d_channel d) JNull (JStr (teamid st')) st' of
                (Inl e, st'') \<Rightarrow> (Inl e, st'')
              | (Inr r, st'') \<Rightarrow>
                  emit (draft_message d sender (MattermostRoom r)) (d_mentions d) st''))
      else (Inr (), log WARNING st))"

text \<open>\<^verbatim>\<open>_message_event_handler\<close> (lines 205-293).\<close>

definition message_event_handler ::
  "decoder \<Rightarrow> platform \<Rightarrow> json \<Rightarrow> backend \<Rightarrow> (exn + unit) \<times> backend" where
  "message_event_handler loads plat message st =
     (case prepare loads plat message st of
        (Raise e, st') \<Rightarrow> (Inl e, st')
      | (Return l, st') \<Rightarrow> (Inr (), st')
      | (Next d, st') \<Rightarrow> address plat d st')"

text \<open>\<^verbatim>\<open>_status_change_event_handler\<close> (lines 295-308).\<close>

definition status_change_event_handler ::
  "json \<Rightarrow> backend \<Rightarrow> (exn + unit) \<times> backend" where
  "status_change_event_handler message st =
     (case subscript message ''data'' of
        Inl e \<Rightarrow> (Inl e, st)
      | Inr data \<Rightarrow>
          (case subscript data ''user_id'' of
             Inl e \<Rightarrow> (Inl e, st)
           | Inr user_id \<Rightarrow>
               (let idd = MattermostPerson
                            \<lparr>person_userid = user_id, person_channelid = JNull,
                             person_teamid = JNull\<rparr>
                in case subscript data ''status'' of
                     Inl e \<Rightarrow> (Inl e, st)
                   | Inr status \<Rightarrow>
                       (if status = JStr ''online''
                        then (Inr (), fire (Callback_presence idd ONLINE) st)
                        else if status = JStr ''away''
                        then (Inr (), fire (Callback_presence idd AWAY) st)
                        else (Inr (), fire (Callback_presence idd ONLINE) (log ERROR st))))))"

text \<open>\<^verbatim>\<open>_hello_event_handler\<close> (lines 310-313).\<close>

definition hello_event_handler :: "json \<Rightarrow> backend \<Rightarrow> (exn + unit) \<times> backend" where
  "hello_event_handler message st =
     (Inr (), fire (Callback_presence (MattermostPerson (bot_identifier st)) ONLINE)
                (fire Connect_callback st))"

text \<open>\<^verbatim>\<open>_room_joined_event_handler\<close> and \<^verbatim>\<open>_room_left_event_handler\<close>
  (lines 195-203).\<close>

definition room_joined_event_handler :: "json \<Rightarrow> backend \<Rightarrow> (exn + unit) \<times> backend" where
  "room_joined_event_handler message st0 =
     (let st = log DEBUG st0 in
      case subscript message ''data'' of
        Inl e \<Rightarrow> (Inl e, st)
      | Inr data \<Rightarrow>
          (case subscript data ''user_id'' of
             Inl e \<Rightarrow> (Inl e, st)
           | Inr user_id \<Rightarrow>
               (if user_id = JStr (bot_userid st) then (Inr (), fire Callback_room_joined st)
                else (Inr (), st))))"

definition room_left_event_handler :: "json \<Rightarrow> backend \<Rightarrow> (exn + unit) \<times> backend" where
  "room_left_event_handler message st0 =
     (let st = log DEBUG st0 in
      case subscript message ''broadcast'' of
        Inl e \<Rightarrow> (Inl e, st)
      | Inr broadcast \<Rightarrow>
          (case subscript broadcast ''user_id'' of
             Inl e \<Rightarrow> (Inl e, st)
           | Inr user_id \<Rightarrow>
               (if user_id = JStr (bot_userid st) then (Inr (), fire Callback_room_left st)
                else (Inr (), st))))"

section \<open>The dispatcher\<close>

text \<open>The table \<^verbatim>\<open>event_handlers\<close> (lines 175-181).\<close>

definition event_handlers ::
  "decoder \<Rightarrow> platform \<Rightarrow> string \<Rightarrow> (json \<Rightarrow> backend \<Rightarrow> (exn + unit) \<times> backend) option" where
  "event_handlers loads plat =
     map_of
       [(''posted'', message_event_handler loads plat),
        (''status_change'', status_change_event_handler),
        (''hello'', hello_event_handler),
        (''user_added'', room_joined_event_handler),
        (''user_removed'', room_left_event_handler)]"

text \<open>\<^verbatim>\<open>event_handlers.get(event)\<close>: a list or a dict as key raises \<^verbatim>\<open>TypeError\<close>;
  a key that is not a string is not in the table.\<close>

definition handlers_get ::
  "(string \<Rightarrow> 'h option) \<Rightarrow> json \<Rightarrow> exn + 'h option" where
  "handlers_get table event =
     (if \<not> hashable event then Inl TypeError
      else case event of JStr k \<Rightarrow> Inr (table k) | _ \<Rightarrow> Inr None)"

text \<open>
  \<^verbatim>\<open>mattermost_event_handler\<close> (lines 165-193). The payload is the text of one
  websocket frame. Only the call of the handler stands inside \<^verbatim>\<open>try\<close>; the decoding,
  the test for \<^verbatim>\<open>'event'\<close> and the lookup in the table stand before it.
\<close>

definition mattermost_event_handler ::
  "decoder \<Rightarrow> platform \<Rightarrow> string \<Rightarrow> backend \<Rightarrow> (exn + unit) \<times> backend" where
  "mattermost_event_handler loads plat payload' st =
     (if payload' = [] then (Inr (), st)
      else
        (case loads payload' of
           None \<Rightarrow> (Inl JSONDecodeError, st)
         | Some payload \<Rightarrow>
             (case py_in ''event'' payload of
                Inl e \<Rightarrow> (Inl e, st)
              | Inr False \<Rightarrow> (Inr (), log DEBUG st)
              | Inr True \<Rightarrow>
                  (case subscript payload ''event'' of
                     Inl e \<Rightarrow> (Inl e, st)
                   | Inr event \<Rightarrow>
                       (case handlers_get (event_handlers loads plat) event of
                          Inl e \<Rightarrow> (Inl e, st)
                        | Inr None \<Rightarrow> (Inr (), log DEBUG st)
                        | Inr (Some event_handler) \<Rightarrow>
                            (case event_handler payload st of
                               (Inl e, st') \<Rightarrow> (Inr (), log EXCEPTION st')
                             | (Inr u, st') \<Rightarrow> (Inr (), st')))))))"


section \<open>Observations and scenarios\<close>

text \<open>The callbacks fired between two states of the backend.\<close>

definition fired :: "backend \<Rightarrow> backend \<Rightarrow> callback list" where
  "fired st st' = drop (length (callbacks st)) (callbacks st')"

text \<open>Identity resolution touches the call trace and the cache only.\<close>

definition quiet :: "backend \<Rightarrow> backend \<Rightarrow> bool" where
  "quiet st st' =
     (callbacks st' = callbacks st \<and> logs st' = logs st \<and> teamid st' = teamid st
      \<and> team st' = team st \<and> bot_userid st' = bot_userid st \<and> scheme st' = scheme st
      \<and> url st' = url st \<and> port st' = port st)"

text \<open>The \<^verbatim>\<open>userid\<close> of a sender (\<^verbatim>\<open>msg.frm.userid\<close>); a room has none.\<close>

fun sender_userid :: "mm_identifier \<Rightarrow> json" where
  "sender_userid (MattermostPerson p) = person_userid p"
| "sender_userid (MattermostRoomOccupant p r) = person_userid p"
| "sender_userid (MattermostRoom r) = JNull"

text \<open>
  A bot bound to team \<open>T1\<close>, and a platform that knows every channel and user it is
  asked for by a string, and refuses the lookup of a channel id that is not a string
  (the driver cannot build a request for an absent id). \<open>changing_platform\<close> answers
  every request for a direct channel with a channel id that depends on the calls made
  before. \<open>refusing_platform\<close> refuses every call.
\<close>

definition scenario_bot :: backend where
  "scenario_bot =
     \<lparr>teamid = ''T1'', team = ''main'', bot_userid = ''BOT'', scheme = ''https'',
      url = ''chat.example.org'', port = ''8065'', direct_cache = [], calls = [],
      callbacks = [], logs = []\<rparr>"

definition scenario_platform :: platform where
  "scenario_platform history c =
     (case c of
        Get_channel cid \<Rightarrow>
          (case cid of
             JStr c \<Rightarrow> Inr (JObj [(''id'', cid), (''name'', JStr ''general'')])
           | _ \<Rightarrow> Inl InvalidOrMissingParameters)
      | Get_channel_by_name t n \<Rightarrow> Inr (JObj [(''id'', JStr ''C1''), (''name'', JStr n)])
      | Get_user_by_username n \<Rightarrow> Inr (JObj [(''id'', JStr (''U-'' @ n))])
      | Create_direct_message_channel a b \<Rightarrow> Inr (JObj [(''id'', JStr ''DM1'')]))"

definition changing_platform :: platform where
  "changing_platform history c =
     (case c of
        Create_direct_message_channel a b \<Rightarrow>
          Inr (JObj [(''id'', JNum (int (length history)))])
      | _ \<Rightarrow> scenario_platform history c)"

definition refusing_platform :: platform where
  "refusing_platform history c = Inl ResourceNotFound"

text \<open>
  The event of the specification's scenario,
  \<^verbatim>\<open>{"event":"posted","data":{"team_id":"T1","channel_id":"C1","channel_type":"O",
  "channel_name":"general","post":"..."},"broadcast":{}}\<close>, with the post
  \<^verbatim>\<open>{"message":"hi","user_id":"U1","id":"P1"}\<close>; the same post in the private
  channel \<open>~staff\<close> and in a channel of type \<open>G\<close>; a direct message whose \<open>data\<close> has
  a \<open>user_id\<close> of its own next to the post; a status change to \<^verbatim>\<open>dnd\<close>; a
  \<^verbatim>\<open>posted\<close> event without \<open>data\<close>; and an event of a kind that has no handler.
\<close>

definition scenario_post :: json where
  "scenario_post =
     JObj [(''message'', JStr ''hi''), (''user_id'', JStr ''U1''), (''id'', JStr ''P1'')]"

definition scenario_event :: json where
  "scenario_event =
     JObj [(''event'', JStr ''posted''),
           (''data'', JObj [(''team_id'', JStr ''T1''), (''channel_id'', JStr ''C1''),
                            (''channel_type'', JStr ''O''), (''channel_name'', JStr ''general''),
                            (''post'', JStr ''post-P1'')]),
           (''broadcast'', JObj [])]"

definition private_event :: json where
  "private_event =
     JObj [(''event'', JStr ''posted''),
           (''data'', JObj [(''team_id'', JStr ''T1''), (''channel_id'', JStr ''C2''),
                            (''channel_type'', JStr ''P''), (''channel_name'', JStr ''~staff''),
                            (''post'', JStr ''post-P1'')]),
           (''broadcast'', JObj [])]"

definition group_message_event :: json where
  "group_message_event =
     JObj [(''event'', JStr ''posted''),
           (''data'', JObj [(''team_id'', JStr []), (''channel_id'', JStr ''G3''),
                            (''channel_type'', JStr ''G''), (''channel_name'', JStr ''u1__u2__u3''),
                            (''post'', JStr ''post-P1'')]),
           (''broadcast'', JObj [])]"

definition direct_event :: json where
  "direct_event =
     JObj [(''event'', JStr ''posted''),
           (''data'', JObj [(''team_id'', JStr []), (''channel_id'', JStr ''D7''),
                            (''channel_type'', JStr ''D''), (''post'', JStr ''post-P1''),
                            (''user_id'', JStr ''U2'')]),
           (''broadcast'', JObj [])]"

definition status_event :: json where
  "status_event =
     JObj [(''event'', JStr ''status_change''),
           (''data'', JObj [(''user_id'', JStr ''U1''), (''status'', JStr ''dnd'')])]"

definition truncated_event :: json where
  "truncated_event = JObj [(''event'', JStr ''posted'')]"

definition typing_event :: json where
  "typing_event = JObj [(''event'', JStr ''typing''), (''data'', JObj [])]"

text \<open>
  A decoder given by a table from frame texts to values. The texts of the events above
  are abbreviated; \<open>5\<close> is the JSON text of a number, and a text that is not in the
  table (such as \<open>{\<close>) is not JSON.
\<close>

definition scenario_loads :: decoder where
  "scenario_loads =
     map_of [(''frame-posted'', scenario_event), (''frame-direct'', direct_event),
             (''frame-status'', status_event), (''frame-truncated'', truncated_event),
             (''frame-typing'', typing_event), (''post-P1'', scenario_post),
             (''5'', JNum 5)]"

section \<open>Chunking: fence markers and part lengths\<close>

lemma fence_len: "length fence = 3" by (simp add: fence_def)
lemma fence_close_len: "length fence_close = 5" by (simp add: fence_close_def fence_def)
lemma fence_open_len: "length fence_open = 4" by (simp add: fence_open_def fence_def)

lemma str_count_close_nil: "str_count fence_close fence = 1"
  by (simp add: str_count.simps fence_def fence_close_def)

lemma take_fence_app:
  assumes "s \<noteq> []"
  shows "(take 3 (s @ fence_close) = fence) = (take 3 s = fence)"
proof (cases "3 \<le> length s")
  case True
  then show ?thesis by simp
next
  case False
  then have "length s = 1 \<or> length s = 2" using assms by (cases s) (auto simp: not_le less_Suc_eq numeral_3_eq_3)
  then show ?thesis
  proof
    assume "length s = 1"
    then obtain a where "s = [a]" by (cases s) auto
    then show ?thesis by (simp add: fence_def fence_close_def)
  next
    assume "length s = 2"
    then obtain a b where "s = [a, b]" by (cases s; cases "tl s") auto
    then show ?thesis by (simp add: fence_def fence_close_def)
  qed
qed

lemma str_count_close: "str_count (s @ fence_close) fence = Suc (str_count s fence)"
proof (induction "length s" arbitrary: s rule: less_induct)
  case less
  show ?case
  proof (cases "s = []")
    case True
    then show ?thesis using str_count_close_nil by (simp add: str_count.simps [of "[]"] fence_def)
  next
    case ne: False
    have nf: "fence \<noteq> []" by (simp add: fence_def)
    show ?thesis
    proof (cases "take 3 s = fence")
      case True
      then have "length (take 3 s) = 3" using fence_len by simp
      then have len: "3 \<le> length s" by simp
      have "str_count (s @ fence_close) fence = 1 + str_count (drop 3 s @ fence_close) fence"
        using True ne len nf by (subst str_count.simps) (simp add: fence_len)
      also have "\<dots> = 1 + Suc (str_count (drop 3 s) fence)"
        using less [of "drop 3 s"] ne by simp
      also have "\<dots> = Suc (str_count s fence)"
        using True ne nf by (subst (2) str_count.simps) (simp add: fence_len)
      finally show ?thesis .
    next
      case False
      then have "take 3 (s @ fence_close) \<noteq> fence" using take_fence_app [OF ne] by simp
      then have "str_count (s @ fence_close) fence = str_count (tl s @ fence_close) fence"
        using ne nf by (subst str_count.simps) (simp add: fence_len)
      also have "\<dots> = Suc (str_count (tl s) fence)"
        using less [of "tl s"] ne by simp
      also have "\<dots> = Suc (str_count s fence)"
        using False ne nf by (subst (2) str_count.simps) (simp add: fence_len)
      finally show ?thesis .
    qed
  qed
qed

lemma close_if_odd_even:
  "even (str_count (if str_count p fence mod 2 \<noteq> 0 then p @ fence_close else p) fence)"
proof (cases "str_count p fence mod 2 \<noteq> 0")
  case True
  then have "even (Suc (str_count p fence))" by presburger
  then show ?thesis using True by (simp add: str_count_close)
next
  case False
  then have "even (str_count p fence)" by presburger
  then show ?thesis using False by simp
qed

lemma fix_part_even: "even (str_count (fix_part f part) fence)"
  unfolding fix_part_def Let_def by (rule close_if_odd_even)

lemma fix_part_length: "length (fix_part f part) \<le> length part + 9"
  by (simp add: fix_part_def Let_def fence_close_len fence_open_len)

lemma prepare_parts_even:
  assumes "prepare_message_body split body limit = Inr parts" and "p \<in> set parts"
  shows "even (str_count p fence)"
proof (cases "split body limit")
  case (Inl e)
  then show ?thesis using assms by (simp add: prepare_message_body_def)
next
  case (Inr ps)
  show ?thesis
  proof (cases "length ps = 1")
    case True
    then obtain q where ps: "ps = [q]" by (cases ps) auto
    show ?thesis
    proof (cases "even (str_count q fence)")
      case True
      then show ?thesis using assms Inr ps
        by (auto simp: prepare_message_body_def even_iff_mod_2_eq_zero)
    next
      case False
      then have "parts = [q @ fence_close]" using assms Inr ps
        by (auto simp: prepare_message_body_def even_iff_mod_2_eq_zero)
      then show ?thesis using assms False by (simp add: str_count_close)
    qed
  next
    case False
    then have "parts = map (fix_part (startswith body fence)) ps"
      using assms Inr by (simp add: prepare_message_body_def Let_def)
    then show ?thesis using assms fix_part_even by auto
  qed
qed

lemma prepare_parts_length:
  assumes "prepare_message_body split body limit = Inr parts" and "p \<in> set parts"
    and "split body limit = Inr ps" and "\<forall>q \<in> set ps. length q \<le> n"
  shows "length p \<le> n + 9"
proof (cases "length ps = 1")
  case True
  then obtain q where ps: "ps = [q]" by (cases ps) auto
  then have "p = q \<or> p = q @ fence_close"
    using assms by (auto simp: prepare_message_body_def split: if_splits)
  then show ?thesis using assms(4) ps by (auto simp: fence_close_len)
next
  case False
  then have "parts = map (fix_part (startswith body fence)) ps"
    using assms by (simp add: prepare_message_body_def Let_def)
  then obtain q where "q \<in> set ps" "p = fix_part (startswith body fence) q"
    using assms(2) by auto
  then show ?thesis using assms(4) fix_part_length [of "startswith body fence" q]
    by (meson add_le_mono1 le_trans)
qed

lemma split_string_after_lengths:
  assumes "split_string_after s n = Inr ps" and "q \<in> set ps"
  shows "int (length q) \<le> n"
  using assms by (auto simp: split_string_after_def split: if_splits)

lemma split_string_after_short:
  assumes "int (length s) \<le> n" and "0 < n"
  shows "split_string_after s n = Inr [s]"
proof -
  have "(max (length s) 1 + nat n - 1) div nat n = 1"
  proof -
    have "nat n \<le> max (length s) 1 + nat n - 1" using assms by simp
    moreover have "max (length s) 1 + nat n - 1 < 2 * nat n" using assms by auto
    ultimately show ?thesis using assms
      by (metis One_nat_def div_nat_eqI mult.commute mult.right_neutral mult_2 nat_mult_1_right numeral_2_eq_2 mult_Suc_right)
  qed
  then show ?thesis using assms by (simp add: split_string_after_def py_range_step_def)
qed


lemma prepare_returns:
  assumes "split body limit = Inr ps"
  shows "\<exists>parts. prepare_message_body split body limit = Inr parts"
  using assms by (simp add: prepare_message_body_def Let_def)


text \<open>
  Claim C5. For every body and every positive limit, \<^verbatim>\<open>prepare_message_body\<close>
  returns, and every part it returns contains an even number of fence markers
  \<^verbatim>\<open>'```'\<close>, counted as \<^verbatim>\<open>str.count\<close> counts them.
\<close>

theorem prepare_message_body_fences_even:
  assumes "0 < limit"
  shows "\<exists>parts. prepare_message_body split_string_after body limit = Inr parts
           \<and> (\<forall>p \<in> set parts. even (str_count p fence))"
proof -
  obtain ps where ps: "split_string_after body limit = Inr ps"
    using assms by (simp add: split_string_after_def)
  then obtain parts where parts: "prepare_message_body split_string_after body limit = Inr parts"
    using prepare_returns by blast
  then show ?thesis using prepare_parts_even by blast
qed

theorem prepare_message_body_fences_even_witness:
  "(0::int) < 5
   \<and> (\<exists>parts. prepare_message_body split_string_after
                  (fence @ [CHR 0x0A] @ ''code'' @ [CHR 0x0A] @ fence) 5 = Inr parts
          \<and> (\<forall>p \<in> set parts. even (str_count p fence)))"
  using prepare_message_body_fences_even [of 5 "fence @ [CHR 0x0A] @ ''code'' @ [CHR 0x0A] @ fence"]
  by simp


text \<open>
  Claim C4, amended. The parts cut by the splitter are at most \<open>limit\<close> long, and the
  fence repair then adds an opening fence of 4 characters and a closing fence of 5
  characters: for every body and every positive limit, \<^verbatim>\<open>prepare_message_body\<close>
  returns, and every part it returns has length at most \<open>limit + 9\<close>.
\<close>

theorem prepare_message_body_part_length:
  assumes "0 < limit"
  shows "\<exists>parts. prepare_message_body split_string_after body limit = Inr parts
           \<and> (\<forall>p \<in> set parts. int (length p) \<le> limit + 9)"
proof -
  obtain ps where ps: "split_string_after body limit = Inr ps"
    using assms by (simp add: split_string_after_def)
  then obtain parts where parts: "prepare_message_body split_string_after body limit = Inr parts"
    using prepare_returns by blast
  have "\<forall>q \<in> set ps. length q \<le> nat limit"
    using split_string_after_lengths [OF ps] assms by (meson nat_int nat_mono order_refl le_nat_iff less_imp_le)
  then have "\<forall>p \<in> set parts. length p \<le> nat limit + 9"
    using prepare_parts_length [OF parts _ ps] by blast
  then have "\<forall>p \<in> set parts. int (length p) \<le> limit + 9"
    using assms by auto
  then show ?thesis using parts by blast
qed

theorem prepare_message_body_part_length_witness:
  "(0::int) < 5
   \<and> (\<exists>parts. prepare_message_body split_string_after (fence @ ''abcdefg'') 5 = Inr parts
          \<and> (\<forall>p \<in> set parts. int (length p) \<le> 5 + 9))"
  using prepare_message_body_part_length [of 5 "fence @ ''abcdefg''"]
  by simp


text \<open>
  Claim C4 as stated fails: a body of 10 characters that opens a fence, with limit 10,
  comes back as one part of 15 characters.
\<close>

theorem prepare_message_body_exceeds_limit:
  "prepare_message_body split_string_after (fence @ ''aaaaaaa'') 10
     = Inr [fence @ ''aaaaaaa'' @ fence_close]
   \<and> length (fence @ ''aaaaaaa'' @ fence_close) = 15"
  by (simp add: prepare_message_body_def split_string_after_def py_range_step_def
        startswith_def fence_def fence_close_def str_count.simps)


text \<open>
  Claim C10. For every body whose length is at most the (positive) limit and which
  contains an even number of fence markers, \<^verbatim>\<open>prepare_message_body\<close> returns
  exactly \<open>[body]\<close>.
\<close>

theorem prepare_message_body_identity:
  assumes "int (length body) \<le> limit" and "0 < limit" and "even (str_count body fence)"
  shows "prepare_message_body split_string_after body limit = Inr [body]"
  using assms split_string_after_short [of body limit]
  by (simp add: prepare_message_body_def Let_def even_iff_mod_2_eq_zero)

theorem prepare_message_body_identity_witness:
  "int (length ''hello'') \<le> 10 \<and> (0::int) < 10 \<and> even (str_count ''hello'' fence)
   \<and> prepare_message_body split_string_after ''hello'' 10 = Inr [''hello'']"
proof -
  have h1: "int (length ''hello'') \<le> 10" by simp
  have h2: "(0::int) < 10" by simp
  have h3: "even (str_count ''hello'' fence)" by (simp add: str_count.simps fence_def)
  show ?thesis using h1 h2 h3 prepare_message_body_identity [OF h1 h2 h3] by simp
qed


section \<open>Event handlers: presence, cross-team filter, dispatch\<close>

lemma bind_result_simps:
  "bind_result (Inl e) f = Raise e"
  "bind_result (Inr v) f = f v"
  by (simp_all add: bind_result_def)

text \<open>
  Claim C7. For every status-change event (an envelope whose \<open>data\<close> carries
  \<open>user_id\<close> and \<open>status\<close>) the presence handler returns normally and fires exactly
  one presence callback for that user: Away for the status \<^verbatim>\<open>away\<close>, Online for
  \<^verbatim>\<open>online\<close> and, with an error logged, Online for every other status value.
\<close>

theorem status_change_presence:
  assumes "subscript message ''data'' = Inr data"
    and "subscript data ''user_id'' = Inr user_id"
    and "subscript data ''status'' = Inr status"
  shows "\<exists>st'. status_change_event_handler message st = (Inr (), st')
           \<and> fired st st' =
               [Callback_presence
                  (MattermostPerson \<lparr>person_userid = user_id, person_channelid = JNull,
                                     person_teamid = JNull\<rparr>)
                  (if status = JStr ''away'' then AWAY else ONLINE)]
           \<and> logs st' =
               logs st @ (if status = JStr ''online'' \<or> status = JStr ''away'' then [] else [ERROR])"
  using assms
  by (simp add: status_change_event_handler_def Let_def fired_def fire_def log_def)

theorem status_change_presence_witness:
  "subscript status_event ''data''
     = Inr (JObj [(''user_id'', JStr ''U1''), (''status'', JStr ''dnd'')])
   \<and> subscript (JObj [(''user_id'', JStr ''U1''), (''status'', JStr ''dnd'')]) ''user_id''
       = Inr (JStr ''U1'')
   \<and> subscript (JObj [(''user_id'', JStr ''U1''), (''status'', JStr ''dnd'')]) ''status''
       = Inr (JStr ''dnd'')
   \<and> (\<exists>st'. status_change_event_handler status_event scenario_bot = (Inr (), st')
          \<and> fired scenario_bot st' =
              [Callback_presence
                 (MattermostPerson \<lparr>person_userid = JStr ''U1'', person_channelid = JNull,
                                    person_teamid = JNull\<rparr>) ONLINE]
          \<and> logs st' = [ERROR])"
proof -
  have h1: "subscript status_event ''data''
     = Inr (JObj [(''user_id'', JStr ''U1''), (''status'', JStr ''dnd'')])"
    by (simp add: status_event_def)
  have h2: "subscript (JObj [(''user_id'', JStr ''U1''), (''status'', JStr ''dnd'')]) ''user_id''
       = Inr (JStr ''U1'')" by simp
  have h3: "subscript (JObj [(''user_id'', JStr ''U1''), (''status'', JStr ''dnd'')]) ''status''
       = Inr (JStr ''dnd'')" by simp
  show ?thesis
    using h1 h2 h3 status_change_presence [OF h1 h2 h3, of scenario_bot]
    by (simp add: scenario_bot_def)
qed

text \<open>
  Claim C3. For every \<^verbatim>\<open>posted\<close> envelope whose \<open>data.team_id\<close> is not the empty
  string and differs from the bot's bound team id, the message event handler returns
  with nothing changed but the log: no callback fires.
\<close>

theorem cross_team_dropped:
  assumes "subscript message ''data'' = Inr data"
    and "subscript data ''team_id'' = Inr team_id"
    and "team_id \<noteq> JStr []"
    and "team_id \<noteq> JStr (teamid st)"
  shows "message_event_handler loads plat message st
           = (Inr (), st\<lparr>logs := logs st @ [DEBUG, INFO]\<rparr>)
         \<and> fired st (snd (message_event_handler loads plat message st)) = []"
proof -
  have "read_channel (teamid st) message = Return INFO"
    using assms by (auto simp: read_channel_def bind_result_simps)
  then have "prepare loads plat message st = (Return INFO, log INFO (log DEBUG st))"
    by (simp add: prepare_def Let_def log_def)
  then show ?thesis
    by (simp add: message_event_handler_def log_def fired_def)
qed

theorem cross_team_dropped_witness:
  "subscript scenario_event ''data''
     = Inr (JObj [(''team_id'', JStr ''T1''), (''channel_id'', JStr ''C1''),
                  (''channel_type'', JStr ''O''), (''channel_name'', JStr ''general''),
                  (''post'', JStr ''post-P1'')])
   \<and> JStr ''T1'' \<noteq> JStr []
   \<and> JStr ''T1'' \<noteq> JStr (teamid (scenario_bot\<lparr>teamid := ''T2''\<rparr>))
   \<and> message_event_handler scenario_loads scenario_platform scenario_event
        (scenario_bot\<lparr>teamid := ''T2''\<rparr>)
       = (Inr (), scenario_bot\<lparr>teamid := ''T2'', logs := [DEBUG, INFO]\<rparr>)
   \<and> fired (scenario_bot\<lparr>teamid := ''T2''\<rparr>)
        (snd (message_event_handler scenario_loads scenario_platform scenario_event
                (scenario_bot\<lparr>teamid := ''T2''\<rparr>))) = []"
proof -
  let ?data = "JObj [(''team_id'', JStr ''T1''), (''channel_id'', JStr ''C1''),
                  (''channel_type'', JStr ''O''), (''channel_name'', JStr ''general''),
                  (''post'', JStr ''post-P1'')]"
  let ?bot = "scenario_bot\<lparr>teamid := ''T2''\<rparr>"
  have h1: "subscript scenario_event ''data'' = Inr ?data" by (simp add: scenario_event_def)
  have h2: "subscript ?data ''team_id'' = Inr (JStr ''T1'')" by simp
  have h3: "JStr ''T1'' \<noteq> JStr []" by simp
  have h4: "JStr ''T1'' \<noteq> JStr (teamid ?bot)" by simp
  show ?thesis
    using h1 h3 h4 cross_team_dropped [OF h1 h2 h3 h4, of scenario_loads scenario_platform]
    by (auto simp: scenario_bot_def)
qed


subsection \<open>The dispatcher\<close>

lemma subscript_Inr_iff:
  "(subscript v k = Inr x) = (\<exists>m. v = JObj m \<and> map_of m k = Some x)"
  by (cases v) (auto split: option.splits)

lemma subscript_py_in: "subscript v k = Inr x \<Longrightarrow> py_in k v = Inr True"
  by (auto simp: subscript_Inr_iff)

lemma dispatch_no_event:
  assumes "payload \<noteq> []" and "loads payload = Some pl" and "py_in ''event'' pl = Inr False"
  shows "mattermost_event_handler loads plat payload st = (Inr (), log DEBUG st)"
  using assms by (simp add: mattermost_event_handler_def)

lemma dispatch_event:
  assumes "payload \<noteq> []" and "loads payload = Some pl" and "subscript pl ''event'' = Inr event"
  shows "mattermost_event_handler loads plat payload st =
           (case handlers_get (event_handlers loads plat) event of
              Inl e \<Rightarrow> (Inl e, st)
            | Inr None \<Rightarrow> (Inr (), log DEBUG st)
            | Inr (Some event_handler) \<Rightarrow>
                (case event_handler pl st of
                   (Inl e, st') \<Rightarrow> (Inr (), log EXCEPTION st')
                 | (Inr u, st') \<Rightarrow> (Inr (), st')))"
  using assms subscript_py_in [OF assms(3)] by (simp add: mattermost_event_handler_def)

lemma dispatch_event_returns:
  assumes "payload \<noteq> []" and "loads payload = Some pl" and "subscript pl ''event'' = Inr event"
  shows "(fst (mattermost_event_handler loads plat payload st) = Inr ()) = hashable event"
  using assms dispatch_event [of payload loads pl event plat st]
  by (auto simp: handlers_get_def split: json.splits option.splits sum.splits prod.splits)

lemma dispatch_raises:
  assumes "payload \<noteq> []" and "loads payload = Some pl" and "py_in ''event'' pl \<noteq> Inr False"
    and "\<forall>v. subscript pl ''event'' \<noteq> Inr v"
  shows "fst (mattermost_event_handler loads plat payload st) \<noteq> Inr ()"
  using assms
  by (auto simp: mattermost_event_handler_def split: sum.splits bool.splits)

text \<open>
  Claim C1, amended. The dispatcher returns normally exactly for the payloads that are
  empty or that \<^verbatim>\<open>json.loads\<close> decodes to a value without an \<^verbatim>\<open>'event'\<close> member
  or to an object whose \<^verbatim>\<open>'event'\<close> member is hashable. For these, an exception
  raised by the per-kind handler is caught and logged and the dispatcher returns
  normally, and an unknown event kind is logged and ignored, with no other change of
  state. Every other payload makes the dispatcher raise before the \<^verbatim>\<open>try\<close> block.
\<close>

theorem dispatcher_resilience:
  "((fst (mattermost_event_handler loads plat payload st) = Inr ())
      = (payload = []
         \<or> (\<exists>pl. loads payload = Some pl
               \<and> (py_in ''event'' pl = Inr False
                   \<or> (\<exists>event. subscript pl ''event'' = Inr event \<and> hashable event)))))
   \<and> (\<forall>pl k event_handler e st'.
         payload \<noteq> [] \<and> loads payload = Some pl \<and> subscript pl ''event'' = Inr (JStr k)
         \<and> event_handlers loads plat k = Some event_handler
         \<and> event_handler pl st = (Inl e, st')
         \<longrightarrow> mattermost_event_handler loads plat payload st = (Inr (), log EXCEPTION st'))
   \<and> (\<forall>pl k.
         payload \<noteq> [] \<and> loads payload = Some pl \<and> subscript pl ''event'' = Inr (JStr k)
         \<and> event_handlers loads plat k = None
         \<longrightarrow> mattermost_event_handler loads plat payload st = (Inr (), log DEBUG st))"
proof (intro conjI allI impI)
  show "(fst (mattermost_event_handler loads plat payload st) = Inr ())
      = (payload = []
         \<or> (\<exists>pl. loads payload = Some pl
               \<and> (py_in ''event'' pl = Inr False
                   \<or> (\<exists>event. subscript pl ''event'' = Inr event \<and> hashable event))))"
  proof (cases "payload = []")
    case True
    then show ?thesis by (simp add: mattermost_event_handler_def)
  next
    case ne: False
    show ?thesis
    proof (cases "loads payload")
      case None
      then show ?thesis using ne by (simp add: mattermost_event_handler_def)
    next
      case (Some pl)
      show ?thesis
      proof (cases "py_in ''event'' pl = Inr False")
        case True
        then show ?thesis using ne Some dispatch_no_event [of payload loads pl plat st] by simp
      next
        case nf: False
        show ?thesis
        proof (cases "\<exists>v. subscript pl ''event'' = Inr v")
          case True
          then obtain v where v: "subscript pl ''event'' = Inr v" by blast
          show ?thesis using dispatch_event_returns [of payload loads pl v plat st] ne Some nf v by simp
        next
          case False
          then have "\<forall>v. subscript pl ''event'' \<noteq> Inr v" by simp
          then show ?thesis
            using dispatch_raises [of payload loads pl plat st] ne Some nf False by simp
        qed
      qed
    qed
  qed
next
  fix pl k event_handler e st'
  assume a: "payload \<noteq> [] \<and> loads payload = Some pl \<and> subscript pl ''event'' = Inr (JStr k)
         \<and> event_handlers loads plat k = Some event_handler
         \<and> event_handler pl st = (Inl e, st')"
  then show "mattermost_event_handler loads plat payload st = (Inr (), log EXCEPTION st')"
    using dispatch_event [of payload loads pl "JStr k" plat st]
    by (simp add: handlers_get_def)
next
  fix pl k
  assume a: "payload \<noteq> [] \<and> loads payload = Some pl \<and> subscript pl ''event'' = Inr (JStr k)
         \<and> event_handlers loads plat k = None"
  then show "mattermost_event_handler loads plat payload st = (Inr (), log DEBUG st)"
    using dispatch_event [of payload loads pl "JStr k" plat st]
    by (simp add: handlers_get_def)
qed


theorem dispatcher_resilience_witness:
  "''frame-truncated'' \<noteq> []
   \<and> scenario_loads ''frame-truncated'' = Some truncated_event
   \<and> subscript truncated_event ''event'' = Inr (JStr ''posted'')
   \<and> event_handlers scenario_loads scenario_platform ''posted''
       = Some (message_event_handler scenario_loads scenario_platform)
   \<and> message_event_handler scenario_loads scenario_platform truncated_event scenario_bot
       = (Inl KeyError, log DEBUG scenario_bot)
   \<and> mattermost_event_handler scenario_loads scenario_platform ''frame-truncated'' scenario_bot
       = (Inr (), log EXCEPTION (log DEBUG scenario_bot))
   \<and> scenario_loads ''frame-typing'' = Some typing_event
   \<and> subscript typing_event ''event'' = Inr (JStr ''typing'')
   \<and> event_handlers scenario_loads scenario_platform ''typing'' = None
   \<and> mattermost_event_handler scenario_loads scenario_platform ''frame-typing'' scenario_bot
       = (Inr (), log DEBUG scenario_bot)"
proof -
  have h1: "''frame-truncated'' \<noteq> []" by simp
  have h2: "scenario_loads ''frame-truncated'' = Some truncated_event"
    by (simp add: scenario_loads_def)
  have h3: "subscript truncated_event ''event'' = Inr (JStr ''posted'')"
    by (simp add: truncated_event_def)
  have h4: "event_handlers scenario_loads scenario_platform ''posted''
       = Some (message_event_handler scenario_loads scenario_platform)"
    by (simp add: event_handlers_def)
  have h5: "message_event_handler scenario_loads scenario_platform truncated_event scenario_bot
       = (Inl KeyError, log DEBUG scenario_bot)"
    by (simp add: message_event_handler_def prepare_def read_channel_def truncated_event_def
          bind_result_def Let_def)
  have "mattermost_event_handler scenario_loads scenario_platform ''frame-truncated'' scenario_bot
       = (Inr (), log EXCEPTION (log DEBUG scenario_bot))"
    using dispatcher_resilience
      [of scenario_loads scenario_platform "''frame-truncated''" scenario_bot]
      h1 h2 h3 h4 h5 by blast
  note caught = this
  have k1: "''frame-typing'' \<noteq> []" by simp
  have k2: "scenario_loads ''frame-typing'' = Some typing_event"
    by (simp add: scenario_loads_def)
  have k3: "subscript typing_event ''event'' = Inr (JStr ''typing'')"
    by (simp add: typing_event_def)
  have k4: "event_handlers scenario_loads scenario_platform ''typing'' = None"
    by (simp add: event_handlers_def)
  have ignored:
    "mattermost_event_handler scenario_loads scenario_platform ''frame-typing'' scenario_bot
       = (Inr (), log DEBUG scenario_bot)"
    using dispatcher_resilience
      [of scenario_loads scenario_platform "''frame-typing''" scenario_bot]
      k1 k2 k3 k4 by blast
  show ?thesis using h1 h2 h3 h4 h5 caught k2 k3 k4 ignored by simp
qed

text \<open>
  Claim C1 as stated fails: a payload that is not JSON raises \<^verbatim>\<open>JSONDecodeError\<close>
  out of the dispatcher, and the JSON text \<open>5\<close> raises \<^verbatim>\<open>TypeError\<close> at the test
  \<^verbatim>\<open>'event' not in payload\<close>.
\<close>

theorem dispatcher_propagates_errors:
  "fst (mattermost_event_handler scenario_loads scenario_platform ''{'' scenario_bot)
     = Inl JSONDecodeError
   \<and> scenario_loads ''5'' = Some (JNum 5)
   \<and> fst (mattermost_event_handler scenario_loads scenario_platform ''5'' scenario_bot)
     = Inl TypeError"
  by (simp add: mattermost_event_handler_def scenario_loads_def)


section \<open>Identity resolution: rooms and the direct-channel cache\<close>

lemma quiet_refl: "quiet st st"
  by (simp add: quiet_def)

lemma quiet_trans: "quiet a b \<Longrightarrow> quiet b c \<Longrightarrow> quiet a c"
  by (simp add: quiet_def)

lemma api_quiet: "api plat c st = (r, st') \<Longrightarrow> quiet st st'"
  by (auto simp: api_def quiet_def)

lemma channelid_to_channelname_quiet:
  "channelid_to_channelname plat channelid st = (r, st') \<Longrightarrow> quiet st st'"
  by (auto simp: channelid_to_channelname_def dest!: api_quiet
        split: prod.splits sum.splits bool.splits)

lemma channelname_to_channelid_quiet:
  "channelname_to_channelid plat n st = (r, st') \<Longrightarrow> quiet st st'"
  by (auto simp: channelname_to_channelid_def dest!: api_quiet
        split: prod.splits sum.splits bool.splits)

lemma channelid_to_channelname_no_ValueError:
  "fst (channelid_to_channelname plat channelid st) \<noteq> Inl ValueError"
proof -
  have "subscript ch k \<noteq> Inl ValueError" for ch k
    by (cases ch) (auto split: option.splits)
  moreover have "py_in k ch \<noteq> Inl ValueError" for ch k
    by (cases ch) auto
  ultimately show ?thesis
    by (auto simp: channelid_to_channelname_def api_def split: prod.splits sum.splits bool.splits)
qed

lemma channelid_to_channelname_named:
  assumes "plat (calls st) (Get_channel channelid) = Inr ch" and "subscript ch ''name'' = Inr n"
  shows "channelid_to_channelname plat channelid st
           = (Inr n, st\<lparr>calls := calls st @ [Get_channel channelid]\<rparr>)"
proof -
  obtain m where "ch = JObj m" "map_of m ''name'' = Some n"
    using assms(2) by (cases ch) (auto split: option.splits)
  then show ?thesis using assms by (simp add: channelid_to_channelname_def api_def)
qed

lemma channelid_to_channelname_unnamed:
  assumes "\<forall>ch n. plat (calls st) (Get_channel channelid) = Inr ch \<longrightarrow> subscript ch ''name'' \<noteq> Inr n"
  shows "\<exists>e. fst (channelid_to_channelname plat channelid st) = Inl e"
proof (cases "plat (calls st) (Get_channel channelid)")
  case (Inl e)
  then show ?thesis by (simp add: channelid_to_channelname_def api_def)
next
  case (Inr ch)
  then have "\<forall>n. subscript ch ''name'' \<noteq> Inr n" using assms by simp
  then show ?thesis using Inr
    by (cases "subscript ch ''name''")
       (auto simp: channelid_to_channelname_def api_def split: sum.splits bool.splits)
qed

lemma MattermostRoom_init_quiet:
  "MattermostRoom_init plat name channelid t st = (r, st') \<Longrightarrow> quiet st st'"
  by (auto simp: MattermostRoom_init_def quiet_refl dest!: channelid_to_channelname_quiet
        split: if_splits json.splits prod.splits sum.splits)

lemma channelid_to_channelname_refused:
  assumes "plat (calls st) (Get_channel channelid) = Inl e"
  shows "channelid_to_channelname plat channelid st
           = (Inl (DriverError e), st\<lparr>calls := calls st @ [Get_channel channelid]\<rparr>)"
  using assms by (simp add: channelid_to_channelname_def api_def)

text \<open>
  Claim C9. Constructing a room fails with \<^verbatim>\<open>ValueError\<close> when both name and
  channelid are supplied and when teamid is absent. With teamid present and both name
  and channelid absent it fails as well: the constructor asks the platform for the name
  of the absent channel id, and when the platform refuses that lookup (or answers
  without a name) the error is raised out of the constructor. With teamid present and
  exactly one of the two supplied no validation error is raised: a name (a string)
  alone succeeds without a platform call, and a channelid alone succeeds when the
  platform answers with the channel's name.
\<close>

theorem room_construction:
  "(name \<noteq> JNull \<and> channelid \<noteq> JNull
      \<longrightarrow> MattermostRoom_init plat name channelid t st = (Inl ValueError, st))
   \<and> (t = JNull \<longrightarrow> MattermostRoom_init plat name channelid t st = (Inl ValueError, st))
   \<and> (t \<noteq> JNull \<and> name = JNull \<and> channelid = JNull
      \<longrightarrow> (\<forall>e. plat (calls st) (Get_channel JNull) = Inl e
              \<longrightarrow> MattermostRoom_init plat name channelid t st
                  = (Inl (DriverError e), st\<lparr>calls := calls st @ [Get_channel JNull]\<rparr>))
          \<and> ((\<forall>ch n. plat (calls st) (Get_channel JNull) = Inr ch
                    \<longrightarrow> subscript ch ''name'' \<noteq> Inr n)
                \<longrightarrow> (\<exists>e. fst (MattermostRoom_init plat name channelid t st) = Inl e)))
   \<and> (t \<noteq> JNull \<and> channelid = JNull
      \<longrightarrow> (\<forall>n. name = JStr n
             \<longrightarrow> MattermostRoom_init plat name channelid t st
                 = (Inr \<lparr>room_name = JStr (if startswith n ''~'' then drop 1 n else n),
                         room_teamid = t, room_id = JNull\<rparr>, st)))
   \<and> (t \<noteq> JNull \<and> name = JNull
      \<longrightarrow> fst (MattermostRoom_init plat name channelid t st) \<noteq> Inl ValueError
          \<and> (\<forall>ch n. plat (calls st) (Get_channel channelid) = Inr ch
                    \<and> subscript ch ''name'' = Inr n
                \<longrightarrow> MattermostRoom_init plat name channelid t st
                    = (Inr \<lparr>room_name = n, room_teamid = t, room_id = channelid\<rparr>,
                       st\<lparr>calls := calls st @ [Get_channel channelid]\<rparr>))
          \<and> ((\<forall>ch n. plat (calls st) (Get_channel channelid) = Inr ch
                    \<longrightarrow> subscript ch ''name'' \<noteq> Inr n)
                \<longrightarrow> (\<exists>e. fst (MattermostRoom_init plat name channelid t st) = Inl e)))"
proof -
  have both: "MattermostRoom_init plat name channelid t st = (Inl ValueError, st)"
    if "name \<noteq> JNull \<and> channelid \<noteq> JNull"
    using that by (simp add: MattermostRoom_init_def)
  have team: "MattermostRoom_init plat name channelid t st = (Inl ValueError, st)"
    if "t = JNull"
    using that by (simp add: MattermostRoom_init_def)
  have named: "MattermostRoom_init plat name channelid t st
                 = (Inr \<lparr>room_name = JStr (if startswith n ''~'' then drop 1 n else n),
                         room_teamid = t, room_id = JNull\<rparr>, st)"
    if "t \<noteq> JNull \<and> channelid = JNull" and "name = JStr n" for n
    using that by (simp add: MattermostRoom_init_def)
  have lookup: "MattermostRoom_init plat name channelid t st =
      (case channelid_to_channelname plat channelid st of
         (Inl e, st') \<Rightarrow> (Inl e, st')
       | (Inr n, st') \<Rightarrow>
           (Inr \<lparr>room_name = n, room_teamid = t, room_id = channelid\<rparr>, st'))"
    if "t \<noteq> JNull \<and> name = JNull"
    using that by (simp add: MattermostRoom_init_def)
  have no_validation: "fst (MattermostRoom_init plat name channelid t st) \<noteq> Inl ValueError"
    if "t \<noteq> JNull \<and> name = JNull"
    using lookup [OF that] channelid_to_channelname_no_ValueError [of plat channelid st]
    by (auto split: prod.splits sum.splits)
  have answered: "MattermostRoom_init plat name channelid t st
                    = (Inr \<lparr>room_name = n, room_teamid = t, room_id = channelid\<rparr>,
                       st\<lparr>calls := calls st @ [Get_channel channelid]\<rparr>)"
    if "t \<noteq> JNull \<and> name = JNull"
      and "plat (calls st) (Get_channel channelid) = Inr ch \<and> subscript ch ''name'' = Inr n"
    for ch n
    using lookup [OF that(1)] that(2) channelid_to_channelname_named [of plat st channelid ch n]
    by simp
  have unnamed: "\<exists>e. fst (MattermostRoom_init plat name channelid t st) = Inl e"
    if "t \<noteq> JNull \<and> name = JNull"
      and "\<forall>ch n. plat (calls st) (Get_channel channelid) = Inr ch
                    \<longrightarrow> subscript ch ''name'' \<noteq> Inr n"
    using lookup [OF that(1)] that(2) channelid_to_channelname_unnamed [of plat st channelid]
    by (auto split: prod.splits sum.splits)
  have refused: "MattermostRoom_init plat name channelid t st
                  = (Inl (DriverError e), st\<lparr>calls := calls st @ [Get_channel JNull]\<rparr>)"
    if "t \<noteq> JNull \<and> name = JNull \<and> channelid = JNull"
      and "plat (calls st) (Get_channel JNull) = Inl e" for e
    using lookup that channelid_to_channelname_refused [of plat st JNull e]
    by simp
  have absent: "\<exists>e. fst (MattermostRoom_init plat name channelid t st) = Inl e"
    if "t \<noteq> JNull \<and> name = JNull \<and> channelid = JNull"
      and "\<forall>ch n. plat (calls st) (Get_channel JNull) = Inr ch
                    \<longrightarrow> subscript ch ''name'' \<noteq> Inr n"
    using unnamed that by simp
  show ?thesis
    using both team named no_validation answered unnamed refused absent by blast
qed

theorem room_construction_witness:
  "MattermostRoom_init scenario_platform (JStr ''general'') (JStr ''C1'') (JStr ''T1'') scenario_bot
     = (Inl ValueError, scenario_bot)
   \<and> MattermostRoom_init scenario_platform (JStr ''general'') JNull JNull scenario_bot
     = (Inl ValueError, scenario_bot)
   \<and> scenario_platform (calls scenario_bot) (Get_channel JNull) = Inl InvalidOrMissingParameters
   \<and> MattermostRoom_init scenario_platform JNull JNull (JStr ''T1'') scenario_bot
     = (Inl (DriverError InvalidOrMissingParameters),
        scenario_bot\<lparr>calls := [Get_channel JNull]\<rparr>)
   \<and> MattermostRoom_init scenario_platform (JStr ''~general'') JNull (JStr ''T1'') scenario_bot
     = (Inr \<lparr>room_name = JStr ''general'', room_teamid = JStr ''T1'', room_id = JNull\<rparr>,
        scenario_bot)
   \<and> MattermostRoom_init scenario_platform JNull (JStr ''C1'') (JStr ''T1'') scenario_bot
     = (Inr \<lparr>room_name = JStr ''general'', room_teamid = JStr ''T1'', room_id = JStr ''C1''\<rparr>,
        scenario_bot\<lparr>calls := [Get_channel (JStr ''C1'')]\<rparr>)
   \<and> (\<exists>e. fst (MattermostRoom_init refusing_platform JNull (JStr ''C1'')
                  (JStr ''T1'') scenario_bot) = Inl e)"
proof -
  note r1 = room_construction
    [of "JStr ''general''" "JStr ''C1''" scenario_platform "JStr ''T1''" scenario_bot]
  note r2 = room_construction
    [of "JStr ''general''" JNull scenario_platform JNull scenario_bot]
  note r3 = room_construction
    [of "JStr ''~general''" JNull scenario_platform "JStr ''T1''" scenario_bot]
  note r4 = room_construction
    [of JNull "JStr ''C1''" scenario_platform "JStr ''T1''" scenario_bot]
  note r5 = room_construction
    [of JNull "JStr ''C1''" refusing_platform "JStr ''T1''" scenario_bot]
  note r6 = room_construction
    [of JNull JNull scenario_platform "JStr ''T1''" scenario_bot]
  have c1: "MattermostRoom_init scenario_platform (JStr ''general'') (JStr ''C1'') (JStr ''T1'')
      scenario_bot = (Inl ValueError, scenario_bot)"
    using r1 by simp
  have c2: "MattermostRoom_init scenario_platform (JStr ''general'') JNull JNull scenario_bot
     = (Inl ValueError, scenario_bot)"
    using r2 by simp
  have c3: "MattermostRoom_init scenario_platform (JStr ''~general'') JNull (JStr ''T1'') scenario_bot
     = (Inr \<lparr>room_name = JStr ''general'', room_teamid = JStr ''T1'', room_id = JNull\<rparr>,
        scenario_bot)"
    using r3 by (simp add: startswith_def)
  have "scenario_platform (calls scenario_bot) (Get_channel (JStr ''C1''))
          = Inr (JObj [(''id'', JStr ''C1''), (''name'', JStr ''general'')])
        \<and> subscript (JObj [(''id'', JStr ''C1''), (''name'', JStr ''general'')]) ''name''
          = Inr (JStr ''general'')"
    by (simp add: scenario_platform_def)
  then have c4: "MattermostRoom_init scenario_platform JNull (JStr ''C1'') (JStr ''T1'') scenario_bot
     = (Inr \<lparr>room_name = JStr ''general'', room_teamid = JStr ''T1'', room_id = JStr ''C1''\<rparr>,
        scenario_bot\<lparr>calls := calls scenario_bot @ [Get_channel (JStr ''C1'')]\<rparr>)"
    using r4 by blast
  have c5: "\<exists>e. fst (MattermostRoom_init refusing_platform JNull (JStr ''C1'')
                  (JStr ''T1'') scenario_bot) = Inl e"
    using r5 by (simp add: refusing_platform_def)
  have h6: "scenario_platform (calls scenario_bot) (Get_channel JNull)
              = Inl InvalidOrMissingParameters"
    by (simp add: scenario_platform_def)
  have c6: "MattermostRoom_init scenario_platform JNull JNull (JStr ''T1'') scenario_bot
     = (Inl (DriverError InvalidOrMissingParameters),
        scenario_bot\<lparr>calls := calls scenario_bot @ [Get_channel JNull]\<rparr>)"
    using r6 h6 by blast
  show ?thesis using c1 c2 c3 c4 c5 h6 c6 by (simp add: scenario_bot_def)
qed

subsection \<open>The direct-channel cache\<close>

lemma username_to_userid_quiet:
  "username_to_userid plat n st = (r, st') \<Longrightarrow> quiet st st'"
  by (auto simp: username_to_userid_def dest!: api_quiet split: prod.splits sum.splits if_splits)

lemma username_to_userid_state:
  "username_to_userid plat n st = (r, st') \<Longrightarrow>
     st' = st\<lparr>calls := calls st @ [Get_user_by_username (lstrip_at n)]\<rparr>"
  by (auto simp: username_to_userid_def api_def split: sum.splits if_splits)

lemma username_to_userid_answer:
  assumes "plat (calls st1) (Get_user_by_username (lstrip_at n))
             = plat (calls st0) (Get_user_by_username (lstrip_at n))"
  shows "fst (username_to_userid plat n st1) = fst (username_to_userid plat n st0)"
  using assms by (auto simp: username_to_userid_def api_def split: sum.splits)

lemma get_direct_channel_quiet:
  "get_direct_channel plat u other st = (r, st') \<Longrightarrow> quiet st st'"
  by (auto simp: get_direct_channel_def Let_def quiet_def api_def
        split: if_splits option.splits sum.splits)

lemma map_of_take_lru:
  "map_of (take lru_maxsize ((k, v) # c)) k = Some v"
  by (simp add: lru_maxsize_def)

lemma get_direct_channel_cached:
  assumes "get_direct_channel plat u other st = (Inr channel, st')"
  shows "hashable u \<and> hashable other
         \<and> map_of (direct_cache st') (cache_key u, cache_key other) = Some channel"
proof -
  have h: "hashable u \<and> hashable other"
    using assms by (auto simp: get_direct_channel_def split: if_splits)
  let ?k = "(cache_key u, cache_key other)"
  show ?thesis
  proof (cases "map_of (direct_cache st) ?k")
    case None
    then show ?thesis using assms h
      by (auto simp: get_direct_channel_def Let_def api_def map_of_take_lru
            split: sum.splits if_splits)
  next
    case (Some c)
    then show ?thesis using assms h
      by (auto simp: get_direct_channel_def Let_def)
  qed
qed

lemma get_direct_channel_hit:
  assumes "hashable u" and "hashable other"
    and "map_of (direct_cache st) (cache_key u, cache_key other) = Some channel"
  shows "get_direct_channel plat u other st =
           (Inr channel,
            st\<lparr>direct_cache := ((cache_key u, cache_key other), channel)
                 # filter (\<lambda>kv. fst kv \<noteq> (cache_key u, cache_key other)) (direct_cache st)\<rparr>)"
  using assms by (simp add: get_direct_channel_def Let_def)

lemma filter_key_shorter:
  assumes "map_of c k = Some v"
  shows "Suc (length (filter (\<lambda>kv. fst kv \<noteq> k) c)) \<le> length c"
proof -
  have "(k, v) \<in> set c" using assms by (rule map_of_SomeD)
  then have "length (filter (\<lambda>kv. fst kv \<noteq> k) c) < length c"
    by (intro length_filter_less [of "(k, v)"]) auto
  then show ?thesis by simp
qed

lemma get_direct_channel_bounded:
  assumes "get_direct_channel plat u other st = (r, st')"
    and "length (direct_cache st) \<le> lru_maxsize"
  shows "length (direct_cache st') \<le> lru_maxsize"
proof (cases "hashable u \<and> hashable other")
  case False
  then show ?thesis using assms by (auto simp: get_direct_channel_def)
next
  case h: True
  show ?thesis
  proof (cases "map_of (direct_cache st) (cache_key u, cache_key other)")
    case None
    then show ?thesis using assms h
      by (auto simp: get_direct_channel_def Let_def api_def split: sum.splits if_splits)
  next
    case (Some c)
    then show ?thesis using assms h filter_key_shorter [OF Some]
      by (auto simp: get_direct_channel_def Let_def)
  qed
qed

lemma startswith_at_not_tilde:
  "startswith x ''@'' \<Longrightarrow> \<not> startswith x ''~''"
  by (cases x) (auto simp: startswith_def)

lemma build_identifier_username:
  assumes "startswith (strip s) ''@''"
  shows "build_identifier plat (JStr s) st =
     (case username_to_userid plat (drop 1 (strip s)) st of
        (Inl e, st') \<Rightarrow> (Inl e, st')
      | (Inr userid, st') \<Rightarrow>
          (if userid \<noteq> JNull then
             (case get_direct_channel plat (JStr (bot_userid st')) userid st' of
                (Inl e, st'') \<Rightarrow> (Inl e, st'')
              | (Inr channel, st'') \<Rightarrow>
                  (case subscript channel ''id'' of
                     Inl e \<Rightarrow> (Inl e, st'')
                   | Inr channelid \<Rightarrow>
                       (Inr (MattermostPerson
                               \<lparr>person_userid = userid, person_channelid = channelid,
                                person_teamid = JStr (teamid st'')\<rparr>), st'')))
           else (Inl PlainException, st')))"
  using assms startswith_at_not_tilde [OF assms]
  by (simp add: build_identifier_def Let_def)

text \<open>
  Claim C8. If resolving an \<^verbatim>\<open>@username\<close> reference succeeds and the platform then
  still maps the username to the same user, resolving it again returns a person with
  the same userid and channelid. The second resolution makes one platform call, the
  username lookup: its direct channel comes from the cache, whatever the platform would
  answer now, and the cache keeps its bound of 1024 entries.
\<close>

theorem build_identifier_twice:
  assumes first: "build_identifier plat (JStr s) st0 = (Inr i1, st1)"
    and at: "startswith (strip s) ''@''"
    and stable: "plat (calls st1) (Get_user_by_username (lstrip_at (drop 1 (strip s))))
                   = plat (calls st0) (Get_user_by_username (lstrip_at (drop 1 (strip s))))"
  shows "\<exists>p1 p2 st2.
           i1 = MattermostPerson p1
           \<and> build_identifier plat (JStr s) st1 = (Inr (MattermostPerson p2), st2)
           \<and> person_userid p2 = person_userid p1
           \<and> person_channelid p2 = person_channelid p1
           \<and> calls st2 = calls st1 @ [Get_user_by_username (lstrip_at (drop 1 (strip s)))]
           \<and> (length (direct_cache st0) \<le> lru_maxsize
                \<longrightarrow> length (direct_cache st2) \<le> lru_maxsize)"
proof -
  let ?n = "drop 1 (strip s)"
  let ?c = "Get_user_by_username (lstrip_at ?n)"
  obtain ru sta where u0: "username_to_userid plat ?n st0 = (ru, sta)"
    by (cases "username_to_userid plat ?n st0")
  from first obtain userid where ru: "ru = Inr userid"
    using u0 by (cases ru) (auto simp: build_identifier_username [OF at])
  have nn: "userid \<noteq> JNull"
    using first u0 ru by (auto simp: build_identifier_username [OF at] split: if_splits)
  obtain rc stb where g0: "get_direct_channel plat (JStr (bot_userid sta)) userid sta = (rc, stb)"
    by (cases "get_direct_channel plat (JStr (bot_userid sta)) userid sta")
  from first obtain channel where rc: "rc = Inr channel"
    using u0 ru nn g0 by (cases rc) (auto simp: build_identifier_username [OF at])
  from first obtain channelid where cid: "subscript channel ''id'' = Inr channelid"
    using u0 ru nn g0 rc
    by (cases "subscript channel ''id''") (auto simp: build_identifier_username [OF at])
  have st1: "st1 = stb"
    and i1: "i1 = MattermostPerson \<lparr>person_userid = userid, person_channelid = channelid,
                                     person_teamid = JStr (teamid stb)\<rparr>"
    using first u0 ru nn g0 rc cid by (auto simp: build_identifier_username [OF at])
  have q0: "quiet st0 sta" using u0 by (rule username_to_userid_quiet)
  have q1: "quiet sta stb" using g0 by (rule get_direct_channel_quiet)
  have bot: "bot_userid stb = bot_userid sta" using q1 by (simp add: quiet_def)
  have cached: "hashable userid
      \<and> map_of (direct_cache stb) (cache_key (JStr (bot_userid sta)), cache_key userid) = Some channel"
    using get_direct_channel_cached [of plat "JStr (bot_userid sta)" userid sta channel stb] g0 rc
    by simp
  \<comment> \<open>the second resolution\<close>
  obtain ru' stc where u1: "username_to_userid plat ?n st1 = (ru', stc)"
    by (cases "username_to_userid plat ?n st1")
  have "ru' = ru"
    using username_to_userid_answer [of plat st1 ?n st0] stable u0 u1 by simp
  then have ru': "ru' = Inr userid" using ru by simp
  have stc: "stc = st1\<lparr>calls := calls st1 @ [?c]\<rparr>"
    using u1 by (rule username_to_userid_state)
  have cache_c: "direct_cache stc = direct_cache stb" and bot_c: "bot_userid stc = bot_userid sta"
    using stc st1 bot by simp_all
  let ?k = "(cache_key (JStr (bot_userid sta)), cache_key userid)"
  have hit: "get_direct_channel plat (JStr (bot_userid stc)) userid stc =
      (Inr channel, stc\<lparr>direct_cache := (?k, channel) # filter (\<lambda>kv. fst kv \<noteq> ?k) (direct_cache stc)\<rparr>)"
    using get_direct_channel_hit [of "JStr (bot_userid stc)" userid stc channel plat]
      cached cache_c bot_c by simp
  let ?st2 = "stc\<lparr>direct_cache := (?k, channel) # filter (\<lambda>kv. fst kv \<noteq> ?k) (direct_cache stc)\<rparr>"
  have second: "build_identifier plat (JStr s) st1 =
      (Inr (MattermostPerson \<lparr>person_userid = userid, person_channelid = channelid,
                               person_teamid = JStr (teamid ?st2)\<rparr>), ?st2)"
    using u1 ru' nn hit cid by (simp add: build_identifier_username [OF at])
  have calls2: "calls ?st2 = calls st1 @ [?c]" using stc by simp
  have bound: "length (direct_cache st0) \<le> lru_maxsize
                \<longrightarrow> length (direct_cache ?st2) \<le> lru_maxsize"
  proof
    assume b0: "length (direct_cache st0) \<le> lru_maxsize"
    have "direct_cache sta = direct_cache st0"
      using username_to_userid_state [OF u0] by simp
    then have "length (direct_cache stb) \<le> lru_maxsize"
      using get_direct_channel_bounded [OF g0] b0 by simp
    then have "length (direct_cache stc) \<le> lru_maxsize" using cache_c by simp
    then show "length (direct_cache ?st2) \<le> lru_maxsize"
      using get_direct_channel_bounded [OF hit] by simp
  qed
  let ?p1 = "\<lparr>person_userid = userid, person_channelid = channelid,
               person_teamid = JStr (teamid stb)\<rparr>"
  let ?p2 = "\<lparr>person_userid = userid, person_channelid = channelid,
               person_teamid = JStr (teamid ?st2)\<rparr>"
  have "i1 = MattermostPerson ?p1
           \<and> build_identifier plat (JStr s) st1 = (Inr (MattermostPerson ?p2), ?st2)
           \<and> person_userid ?p2 = person_userid ?p1
           \<and> person_channelid ?p2 = person_channelid ?p1
           \<and> calls ?st2 = calls st1 @ [?c]
           \<and> (length (direct_cache st0) \<le> lru_maxsize
                \<longrightarrow> length (direct_cache ?st2) \<le> lru_maxsize)"
    using i1 second calls2 bound by simp
  then show ?thesis by blast
qed


theorem build_identifier_twice_witness:
  "build_identifier changing_platform (JStr ''@bob'') scenario_bot
     = (Inr (MattermostPerson \<lparr>person_userid = JStr ''U-bob'', person_channelid = JNum 1,
                               person_teamid = JStr ''T1''\<rparr>),
        scenario_bot
          \<lparr>direct_cache := [((JStr ''BOT'', JStr ''U-bob''), JObj [(''id'', JNum 1)])],
           calls := [Get_user_by_username ''bob'',
                     Create_direct_message_channel (JStr ''BOT'') (JStr ''U-bob'')]\<rparr>)
   \<and> startswith (strip ''@bob'') ''@''
   \<and> changing_platform
        [Get_user_by_username ''bob'',
         Create_direct_message_channel (JStr ''BOT'') (JStr ''U-bob'')]
        (Get_user_by_username (lstrip_at (drop 1 (strip ''@bob''))))
       = changing_platform [] (Get_user_by_username (lstrip_at (drop 1 (strip ''@bob''))))
   \<and> changing_platform
        [Get_user_by_username ''bob'',
         Create_direct_message_channel (JStr ''BOT'') (JStr ''U-bob''),
         Get_user_by_username ''bob'']
        (Create_direct_message_channel (JStr ''BOT'') (JStr ''U-bob''))
       = Inr (JObj [(''id'', JNum 3)])
   \<and> (\<exists>p2 st2.
         build_identifier changing_platform (JStr ''@bob'')
           (scenario_bot
              \<lparr>direct_cache := [((JStr ''BOT'', JStr ''U-bob''), JObj [(''id'', JNum 1)])],
               calls := [Get_user_by_username ''bob'',
                         Create_direct_message_channel (JStr ''BOT'') (JStr ''U-bob'')]\<rparr>)
           = (Inr (MattermostPerson p2), st2)
         \<and> person_userid p2 = JStr ''U-bob''
         \<and> person_channelid p2 = JNum 1
         \<and> calls st2 = [Get_user_by_username ''bob'',
                         Create_direct_message_channel (JStr ''BOT'') (JStr ''U-bob''),
                         Get_user_by_username ''bob''])"
proof -
  let ?st1 = "scenario_bot
          \<lparr>direct_cache := [((JStr ''BOT'', JStr ''U-bob''), JObj [(''id'', JNum 1)])],
           calls := [Get_user_by_username ''bob'',
                     Create_direct_message_channel (JStr ''BOT'') (JStr ''U-bob'')]\<rparr>"
  let ?i1 = "MattermostPerson \<lparr>person_userid = JStr ''U-bob'', person_channelid = JNum 1,
                               person_teamid = JStr ''T1''\<rparr>"
  have strip: "strip ''@bob'' = ''@bob''"
    by (simp add: strip_def py_isspace_def)
  have first: "build_identifier changing_platform (JStr ''@bob'') scenario_bot = (Inr ?i1, ?st1)"
    by (simp add: build_identifier_def strip startswith_def username_to_userid_def
          lstrip_at_def api_def get_direct_channel_def changing_platform_def
          scenario_platform_def scenario_bot_def lru_maxsize_def Let_def)
  have at: "startswith (strip ''@bob'') ''@''"
    by (simp add: strip startswith_def)
  have calls1: "calls ?st1 = [Get_user_by_username ''bob'',
                     Create_direct_message_channel (JStr ''BOT'') (JStr ''U-bob'')]"
    by simp
  have stable: "changing_platform (calls ?st1)
        (Get_user_by_username (lstrip_at (drop 1 (strip ''@bob''))))
       = changing_platform (calls scenario_bot)
           (Get_user_by_username (lstrip_at (drop 1 (strip ''@bob''))))"
    by (simp add: changing_platform_def scenario_platform_def)
  have now: "changing_platform
        [Get_user_by_username ''bob'',
         Create_direct_message_channel (JStr ''BOT'') (JStr ''U-bob''),
         Get_user_by_username ''bob'']
        (Create_direct_message_channel (JStr ''BOT'') (JStr ''U-bob''))
       = Inr (JObj [(''id'', JNum 3)])"
    by (simp add: changing_platform_def)
  have name: "lstrip_at (drop 1 (strip ''@bob'')) = ''bob''"
    by (simp add: strip lstrip_at_def)
  from build_identifier_twice [OF first at stable]
  obtain p1 p2 st2 where
    r: "?i1 = MattermostPerson p1"
       "build_identifier changing_platform (JStr ''@bob'') ?st1 = (Inr (MattermostPerson p2), st2)"
       "person_userid p2 = person_userid p1" "person_channelid p2 = person_channelid p1"
       "calls st2 = calls ?st1 @ [Get_user_by_username (lstrip_at (drop 1 (strip ''@bob'')))]"
    by blast
  from r(1) have p1: "person_userid p1 = JStr ''U-bob''" "person_channelid p1 = JNum 1"
    by auto
  have concl: "\<exists>p2 st2.
         build_identifier changing_platform (JStr ''@bob'') ?st1 = (Inr (MattermostPerson p2), st2)
         \<and> person_userid p2 = JStr ''U-bob''
         \<and> person_channelid p2 = JNum 1
         \<and> calls st2 = [Get_user_by_username ''bob'',
                         Create_direct_message_channel (JStr ''BOT'') (JStr ''U-bob''),
                         Get_user_by_username ''bob'']"
    using r(2-5) p1 name calls1 by (intro exI [of _ p2] exI [of _ st2]) simp
  have stable': "changing_platform
        [Get_user_by_username ''bob'',
         Create_direct_message_channel (JStr ''BOT'') (JStr ''U-bob'')]
        (Get_user_by_username (lstrip_at (drop 1 (strip ''@bob''))))
       = changing_platform [] (Get_user_by_username (lstrip_at (drop 1 (strip ''@bob''))))"
    using stable by (simp add: scenario_bot_def)
  show ?thesis
    using first at stable' now concl by blast
qed


section \<open>The message event handler\<close>

lemma MattermostRoomOccupant_init_quiet:
  "MattermostRoomOccupant_init plat t userid channelid st = (r, st') \<Longrightarrow> quiet st st'"
  by (auto simp: MattermostRoomOccupant_init_def dest!: MattermostRoom_init_quiet
        split: prod.splits sum.splits)

lemma MattermostRoomOccupant_init_result:
  "MattermostRoomOccupant_init plat t userid channelid st = (Inr i, st') \<Longrightarrow>
     is_RoomOccupant i \<and> sender_userid i = userid"
  by (auto simp: MattermostRoomOccupant_init_def split: prod.splits sum.splits)

lemma build_identifier_quiet:
  assumes "build_identifier plat txtrep st = (r, st')"
  shows "quiet st st'"
proof (cases txtrep)
  case (JStr s)
  show ?thesis
  proof (cases "startswith (strip s) ''~''")
    case True
    then show ?thesis using assms JStr
      by (auto simp: build_identifier_def Let_def split: prod.splits sum.splits if_splits
            dest!: channelname_to_channelid_quiet MattermostRoom_init_quiet
            intro: quiet_trans)
  next
    case False
    then show ?thesis using assms JStr
      by (auto simp: build_identifier_def Let_def quiet_refl
            split: prod.splits sum.splits if_splits
            dest!: username_to_userid_quiet get_direct_channel_quiet
            intro: quiet_trans)
  qed
qed (use assms in \<open>auto simp: build_identifier_def quiet_refl\<close>)

lemma mentions_loop_quiet:
  "mentions_loop plat ms acc st = (r, st') \<Longrightarrow> quiet st st'"
proof (induction ms arbitrary: acc st)
  case Nil
  then show ?case by (simp add: quiet_refl)
next
  case (Cons m ms)
  show ?case
  proof (cases "m \<noteq> JStr (bot_userid st)")
    case False
    then show ?thesis using Cons by simp
  next
    case True
    obtain rb stb where b: "build_identifier plat m st = (rb, stb)"
      by (cases "build_identifier plat m st")
    have q: "quiet st stb" using b by (rule build_identifier_quiet)
    show ?thesis
    proof (cases rb)
      case (Inl e)
      then show ?thesis using Cons.prems True b q by simp
    next
      case (Inr i)
      then have "mentions_loop plat ms (acc @ [i]) stb = (r, st')"
        using Cons.prems True b by simp
      then have "quiet stb st'" by (rule Cons.IH)
      then show ?thesis using q by (rule quiet_trans [rotated])
    qed
  qed
qed

lemma read_mentions_quiet:
  "read_mentions loads plat data st = (r, st') \<Longrightarrow> quiet st st'"
  by (auto simp: read_mentions_def mentions_build_identifier_def quiet_refl
        split: sum.splits bool.splits dest: mentions_loop_quiet)

lemma build_draft_quiet:
  "build_draft loads plat message c p st = (f, st') \<Longrightarrow> quiet st st'"
  by (auto simp: build_draft_def split: prod.splits sum.splits dest: read_mentions_quiet)

lemma build_draft_Next:
  assumes "build_draft loads plat message (data, channelid, channel_type, channel)
             (text, post_id, file_ids, userid) st = (Next d, st')"
  shows "d_channelid d = channelid \<and> d_channel_type d = channel_type \<and> d_channel d = channel
         \<and> d_userid d = userid \<and> d_text d = text \<and> d_event d = message"
  using assms by (auto simp: build_draft_def split: prod.splits sum.splits)

lemma quiet_log: "quiet (log l st) st' \<Longrightarrow>
    callbacks st' = callbacks st \<and> teamid st' = teamid st \<and> bot_userid st' = bot_userid st"
  by (simp add: quiet_def log_def)

lemma prepare_frame:
  assumes "prepare loads plat message st = (f, st')"
  shows "callbacks st' = callbacks st \<and> teamid st' = teamid st \<and> bot_userid st' = bot_userid st"
proof -
  let ?st = "log DEBUG st"
  show ?thesis
  proof (cases "read_channel (teamid ?st) message")
    case (Raise e)
    then show ?thesis using assms by (auto simp: prepare_def Let_def log_def)
  next
    case (Return l)
    then show ?thesis using assms by (auto simp: prepare_def Let_def log_def)
  next
    case (Next c)
    show ?thesis
    proof (cases "read_post loads (fst c)")
      case (Raise e)
      then show ?thesis using assms Next by (auto simp: prepare_def Let_def log_def)
    next
      case (Return l)
      then show ?thesis using assms Next by (auto simp: prepare_def Let_def log_def)
    next
      case n2: (Next p)
      then have "build_draft loads plat message c p ?st = (f, st')"
        using assms Next by (simp add: prepare_def Let_def)
      then have "quiet ?st st'" by (rule build_draft_quiet)
      then show ?thesis by (rule quiet_log)
    qed
  qed
qed

lemma prepare_Next:
  assumes "prepare loads plat message st = (Next d, st')"
  shows "\<exists>data post_id file_ids.
           read_channel (teamid st) message
             = Next (data, d_channelid d, d_channel_type d, d_channel d)
           \<and> read_post loads data = Next (d_text d, post_id, file_ids, d_userid d)"
proof -
  let ?st = "log DEBUG st"
  have t: "teamid ?st = teamid st" by (simp add: log_def)
  obtain data channelid channel_type channel
    where c: "read_channel (teamid st) message = Next (data, channelid, channel_type, channel)"
    using assms t by (cases "read_channel (teamid st) message")
      (auto simp: prepare_def Let_def)
  obtain body post_id file_ids userid
    where p: "read_post loads data = Next (body, post_id, file_ids, userid)"
    using assms t c by (cases "read_post loads data") (auto simp: prepare_def Let_def)
  have "build_draft loads plat message (data, channelid, channel_type, channel)
          (body, post_id, file_ids, userid) ?st = (Next d, st')"
    using assms t c p by (simp add: prepare_def Let_def)
  from build_draft_Next [OF this] show ?thesis using c p by auto
qed

lemma prepare_not_Next:
  assumes "prepare loads plat message st = (f, st1)" and "\<forall>d. f \<noteq> Next d"
    and "message_event_handler loads plat message st = (r, st')"
  shows "fired st st' = []"
proof -
  have "st' = st1" using assms by (cases f) (auto simp: message_event_handler_def)
  then show ?thesis using prepare_frame [OF assms(1)] by (simp add: fired_def)
qed

lemma emit_fired:
  "emit msg mentions st = (r, st') \<Longrightarrow>
     r = Inr () \<and> callbacks st' = callbacks st @ Callback_message msg
         # (if mentions = [] then [] else [Callback_mention msg mentions])"
  by (auto simp: emit_def Let_def fire_def)

lemma address_direct:
  assumes "d_channel_type d = JStr ''D''"
  shows "\<exists>msg st'. address plat d st = (Inr (), st')
           \<and> callbacks st' = callbacks st @ Callback_message msg
               # (if d_mentions d = [] then [] else [Callback_mention msg (d_mentions d)])
           \<and> frm msg = MattermostPerson
               \<lparr>person_userid = d_userid d, person_channelid = d_channelid d,
                person_teamid = JStr (teamid st)\<rparr>
           \<and> to msg = MattermostPerson
               \<lparr>person_userid = JStr (bot_userid st), person_channelid = d_channelid d,
                person_teamid = JStr (teamid st)\<rparr>"
  using assms by (simp add: address_def emit_def Let_def fire_def draft_message_def)

lemma address_group:
  assumes "d_channel_type d = JStr ''O'' \<or> d_channel_type d = JStr ''P''"
    and "address plat d st = (r, st')"
  shows "(\<exists>e. r = Inl e \<and> callbacks st' = callbacks st)
         \<or> (r = Inr () \<and> (\<exists>msg. callbacks st' = callbacks st @ Callback_message msg
               # (if d_mentions d = [] then [] else [Callback_mention msg (d_mentions d)])
             \<and> is_RoomOccupant (frm msg) \<and> is_Room (to msg)
             \<and> sender_userid (frm msg) = d_userid d))"
proof -
  have nd: "d_channel_type d \<noteq> JStr ''D''" using assms(1) by auto
  obtain ro sta where o: "MattermostRoomOccupant_init plat (JStr (teamid st)) (d_userid d)
                (d_channelid d) st = (ro, sta)"
    by (cases "MattermostRoomOccupant_init plat (JStr (teamid st)) (d_userid d) (d_channelid d) st")
  have qa: "quiet st sta" using o by (rule MattermostRoomOccupant_init_quiet)
  show ?thesis
  proof (cases ro)
    case (Inl e)
    then show ?thesis using assms nd o qa by (auto simp: address_def quiet_def)
  next
    case (Inr sender)
    note s = MattermostRoomOccupant_init_result [OF o [unfolded Inr]]
    obtain rr stb where m: "MattermostRoom_init plat (d_channel d) JNull (JStr (teamid sta)) sta
        = (rr, stb)"
      by (cases "MattermostRoom_init plat (d_channel d) JNull (JStr (teamid sta)) sta")
    have qb: "quiet sta stb" using m by (rule MattermostRoom_init_quiet)
    show ?thesis
    proof (cases rr)
      case (Inl e)
      then show ?thesis using assms nd o Inr m qa qb by (auto simp: address_def quiet_def)
    next
      case r: (Inr room)
      have "emit (draft_message d sender (MattermostRoom room)) (d_mentions d) stb = (r, st')"
        using assms nd o Inr m r by (auto simp: address_def)
      from emit_fired [OF this] show ?thesis
        using s qa qb by (auto simp: quiet_def draft_message_def)
    qed
  qed
qed

lemma address_unknown:
  assumes "d_channel_type d \<noteq> JStr ''D''" and "d_channel_type d \<noteq> JStr ''O''"
    and "d_channel_type d \<noteq> JStr ''P''"
  shows "address plat d st = (Inr (), log WARNING st)"
  using assms by (simp add: address_def)


lemma bind_result_Next:
  "bind_result x f = Next y \<Longrightarrow> \<exists>v. x = Inr v \<and> f v = Next y"
  by (cases x) (auto simp: bind_result_def)

lemma bind_flow_Next:
  "bind_flow x f = Next y \<Longrightarrow> \<exists>v. x = Next v \<and> f v = Next y"
  by (cases x) (auto simp: bind_flow_def)

lemma read_channel_data:
  assumes "read_channel t message = Next (data, channelid, channel_type, channel)"
  shows "subscript message ''data'' = Inr data"
proof -
  from assms obtain data' where d: "subscript message ''data'' = Inr data'"
    and 1: "bind_result (subscript data' ''team_id'') (\<lambda>team_id.
     if team_id \<noteq> JStr [] \<and> JStr t \<noteq> team_id then Return INFO else
     bind_result (subscript message ''broadcast'') (\<lambda>broadcast.
     bind_flow
       (bind_result (py_in ''channel_id'' data') (\<lambda>in_data.
          if in_data then bind_result (subscript data' ''channel_id'') Next
          else bind_result (py_in ''channel_id'' broadcast) (\<lambda>in_broadcast.
            if in_broadcast then bind_result (subscript broadcast ''channel_id'') Next
            else Return ERROR)))
       (\<lambda>channelid.
     bind_result (subscript data' ''channel_type'') (\<lambda>channel_type.
     if channel_type \<noteq> JStr ''D'' then
       bind_result (subscript data' ''channel_name'') (\<lambda>channel.
         Next (data', channelid, channel_type, channel))
     else Next (data', channelid, channel_type, channelid))))) = Next (data, channelid, channel_type, channel)"
    unfolding read_channel_def by (blast dest: bind_result_Next)
  from 1 have "data' = data"
    by (auto dest!: bind_result_Next bind_flow_Next split: if_splits)
  then show ?thesis using d by simp
qed

lemma read_channel_fields:
  assumes "read_channel t message = Next (data, channelid, channel_type, channel)"
  shows "subscript data ''channel_type'' = Inr channel_type
         \<and> (channel_type \<noteq> JStr ''D'' \<longrightarrow> subscript data ''channel_name'' = Inr channel)
         \<and> (channel_type = JStr ''D'' \<longrightarrow> channel = channelid)"
proof -
  have d: "subscript message ''data'' = Inr data" using assms by (rule read_channel_data)
  from assms d obtain team_id where
    1: "(if team_id \<noteq> JStr [] \<and> JStr t \<noteq> team_id then Return INFO else
     bind_result (subscript message ''broadcast'') (\<lambda>broadcast.
     bind_flow
       (bind_result (py_in ''channel_id'' data) (\<lambda>in_data.
          if in_data then bind_result (subscript data ''channel_id'') Next
          else bind_result (py_in ''channel_id'' broadcast) (\<lambda>in_broadcast.
            if in_broadcast then bind_result (subscript broadcast ''channel_id'') Next
            else Return ERROR)))
       (\<lambda>channelid.
     bind_result (subscript data ''channel_type'') (\<lambda>channel_type.
     if channel_type \<noteq> JStr ''D'' then
       bind_result (subscript data ''channel_name'') (\<lambda>channel.
         Next (data, channelid, channel_type, channel))
     else Next (data, channelid, channel_type, channelid))))) = Next (data, channelid, channel_type, channel)"
    unfolding read_channel_def by (auto simp: bind_result_simps dest!: bind_result_Next)
  then obtain broadcast where
    2: "bind_flow
       (bind_result (py_in ''channel_id'' data) (\<lambda>in_data.
          if in_data then bind_result (subscript data ''channel_id'') Next
          else bind_result (py_in ''channel_id'' broadcast) (\<lambda>in_broadcast.
            if in_broadcast then bind_result (subscript broadcast ''channel_id'') Next
            else Return ERROR)))
       (\<lambda>channelid.
     bind_result (subscript data ''channel_type'') (\<lambda>channel_type.
     if channel_type \<noteq> JStr ''D'' then
       bind_result (subscript data ''channel_name'') (\<lambda>channel.
         Next (data, channelid, channel_type, channel))
     else Next (data, channelid, channel_type, channelid))) = Next (data, channelid, channel_type, channel)"
    by (auto dest!: bind_result_Next split: if_splits)
  then obtain c where
    3: "bind_result (subscript data ''channel_type'') (\<lambda>channel_type.
     if channel_type \<noteq> JStr ''D'' then
       bind_result (subscript data ''channel_name'') (\<lambda>channel.
         Next (data, c, channel_type, channel))
     else Next (data, c, channel_type, c)) = Next (data, channelid, channel_type, channel)"
    by (auto dest!: bind_flow_Next)
  then show ?thesis
    by (auto dest!: bind_result_Next split: if_splits)
qed

lemma prepare_channel_type:
  assumes "prepare loads plat message st = (Next d, st1)"
  shows "\<exists>data. subscript message ''data'' = Inr data
           \<and> subscript data ''channel_type'' = Inr (d_channel_type d)
           \<and> (d_channel_type d \<noteq> JStr ''D''
                \<longrightarrow> subscript data ''channel_name'' = Inr (d_channel d))"
proof -
  from prepare_Next [OF assms] obtain data post_id file_ids where
    c: "read_channel (teamid st) message
          = Next (data, d_channelid d, d_channel_type d, d_channel d)"
    by blast
  show ?thesis using read_channel_data [OF c] read_channel_fields [OF c] by blast
qed

lemma address_group_emits:
  assumes "d_channel_type d = JStr ''O'' \<or> d_channel_type d = JStr ''P''"
    and "plat (calls st) (Get_channel (d_channelid d)) = Inr ch"
    and "subscript ch ''name'' = Inr n"
    and "d_channel d = JStr cn"
  shows "\<exists>msg st'. address plat d st = (Inr (), st')
           \<and> callbacks st' = callbacks st @ Callback_message msg
               # (if d_mentions d = [] then [] else [Callback_mention msg (d_mentions d)])
           \<and> frm msg = MattermostRoomOccupant
                \<lparr>person_userid = d_userid d, person_channelid = d_channelid d,
                 person_teamid = JStr (teamid st)\<rparr>
                \<lparr>room_name = n, room_teamid = JStr (teamid st), room_id = d_channelid d\<rparr>
           \<and> to msg = MattermostRoom
                \<lparr>room_name = JStr (if startswith cn ''~'' then drop 1 cn else cn),
                 room_teamid = JStr (teamid st), room_id = JNull\<rparr>"
proof -
  have nd: "d_channel_type d \<noteq> JStr ''D''" using assms(1) by auto
  have c: "channelid_to_channelname plat (d_channelid d) st
             = (Inr n, st\<lparr>calls := calls st @ [Get_channel (d_channelid d)]\<rparr>)"
    using channelid_to_channelname_named [of plat st "d_channelid d" ch n] assms(2,3) by simp
  show ?thesis
    using assms(1,4) nd c
    by (simp add: address_def MattermostRoomOccupant_init_def MattermostRoom_init_def
          emit_def Let_def fire_def draft_message_def)
qed

lemma address_group_fails:
  assumes "d_channel_type d = JStr ''O'' \<or> d_channel_type d = JStr ''P''"
    and "\<forall>ch n. plat (calls st) (Get_channel (d_channelid d)) = Inr ch
            \<longrightarrow> subscript ch ''name'' \<noteq> Inr n"
    and "address plat d st = (r, st')"
  shows "(\<exists>e. r = Inl e) \<and> callbacks st' = callbacks st"
proof -
  have nd: "d_channel_type d \<noteq> JStr ''D''" using assms(1) by auto
  obtain e where e: "fst (channelid_to_channelname plat (d_channelid d) st) = Inl e"
    using channelid_to_channelname_unnamed [of plat st "d_channelid d"] assms(2) by blast
  obtain rc stc where c: "channelid_to_channelname plat (d_channelid d) st = (rc, stc)"
    by (cases "channelid_to_channelname plat (d_channelid d) st")
  have q: "quiet st stc" using c by (rule channelid_to_channelname_quiet)
  have rc: "rc = Inl e" using e c by simp
  have "address plat d st = (Inl e, stc)"
    using assms(1) nd c rc
    by (simp add: address_def MattermostRoomOccupant_init_def MattermostRoom_init_def)
  then show ?thesis using assms(3) q by (auto simp: quiet_def)
qed

lemmas scenario_defs =
  scenario_bot_def scenario_platform_def scenario_loads_def scenario_event_def
  direct_event_def private_event_def group_message_event_def scenario_post_def
  refusing_platform_def

lemmas handler_defs =
  message_event_handler_def prepare_def read_channel_def read_post_def
  read_embedded_post_def read_mentions_def build_draft_def permalink_def json_loads_def
  bind_result_def bind_flow_def address_def emit_def draft_message_def fire_def log_def
  MattermostRoomOccupant_init_def MattermostRoom_init_def channelid_to_channelname_def
  api_def startswith_def Let_def

text \<open>
  Claim C6, amended. For every \<^verbatim>\<open>posted\<close> event that reaches the addressing step
  (the channel type tested there is the event's \<open>data.channel_type\<close>): with type
  \<open>D\<close> the handler returns normally and emits a message from a person to a person, the
  bot. With type \<open>O\<close> or \<open>P\<close> the handler first asks the platform for the name of
  the channel: when the platform answers with a named channel and the event's
  \<open>channel_name\<close> is a string, it emits a message from a room occupant to a room; when
  the platform gives no name, the handler raises and no callback fires; in every case it
  either raises with nothing fired or emits a message from a room occupant to a room.
  With any other type it returns normally and no callback fires.
\<close>

theorem addressing:
  assumes "prepare loads plat message st = (Next d, st1)"
    and "message_event_handler loads plat message st = (r, st')"
  shows "(\<exists>data. subscript message ''data'' = Inr data
            \<and> subscript data ''channel_type'' = Inr (d_channel_type d))
         \<and> (d_channel_type d = JStr ''D''
            \<longrightarrow> r = Inr ()
                \<and> (\<exists>msg. fired st st' = Callback_message msg
                             # (if d_mentions d = [] then [] else [Callback_mention msg (d_mentions d)])
                      \<and> frm msg = MattermostPerson
                           \<lparr>person_userid = d_userid d, person_channelid = d_channelid d,
                            person_teamid = JStr (teamid st)\<rparr>
                      \<and> to msg = MattermostPerson
                           \<lparr>person_userid = JStr (bot_userid st),
                            person_channelid = d_channelid d,
                            person_teamid = JStr (teamid st)\<rparr>))
         \<and> (d_channel_type d = JStr ''O'' \<or> d_channel_type d = JStr ''P''
            \<longrightarrow> (\<forall>ch n cn.
                   plat (calls st1) (Get_channel (d_channelid d)) = Inr ch
                   \<and> subscript ch ''name'' = Inr n \<and> d_channel d = JStr cn
                   \<longrightarrow> r = Inr ()
                       \<and> (\<exists>msg. fired st st' = Callback_message msg
                              # (if d_mentions d = [] then []
                                 else [Callback_mention msg (d_mentions d)])
                            \<and> frm msg = MattermostRoomOccupant
                                 \<lparr>person_userid = d_userid d, person_channelid = d_channelid d,
                                  person_teamid = JStr (teamid st)\<rparr>
                                 \<lparr>room_name = n, room_teamid = JStr (teamid st),
                                  room_id = d_channelid d\<rparr>
                            \<and> to msg = MattermostRoom
                                 \<lparr>room_name = JStr (if startswith cn ''~'' then drop 1 cn else cn),
                                  room_teamid = JStr (teamid st), room_id = JNull\<rparr>))
                \<and> ((\<forall>ch n. plat (calls st1) (Get_channel (d_channelid d)) = Inr ch
                            \<longrightarrow> subscript ch ''name'' \<noteq> Inr n)
                     \<longrightarrow> (\<exists>e. r = Inl e) \<and> fired st st' = [])
                \<and> ((\<exists>e. r = Inl e \<and> fired st st' = [])
                     \<or> (r = Inr ()
                         \<and> (\<exists>msg. fired st st' = Callback_message msg
                                # (if d_mentions d = [] then []
                                   else [Callback_mention msg (d_mentions d)])
                              \<and> is_RoomOccupant (frm msg) \<and> is_Room (to msg)))))
         \<and> (d_channel_type d \<noteq> JStr ''D'' \<and> d_channel_type d \<noteq> JStr ''O''
              \<and> d_channel_type d \<noteq> JStr ''P''
            \<longrightarrow> r = Inr () \<and> fired st st' = [])"
proof -
  have a: "address plat d st1 = (r, st')"
    using assms by (simp add: message_event_handler_def)
  note f = prepare_frame [OF assms(1)]
  have cb: "callbacks st1 = callbacks st" using f by simp
  have link: "\<exists>data. subscript message ''data'' = Inr data
            \<and> subscript data ''channel_type'' = Inr (d_channel_type d)"
    using prepare_channel_type [OF assms(1)] by blast
  have direct: "r = Inr ()
                \<and> (\<exists>msg. fired st st' = Callback_message msg
                             # (if d_mentions d = [] then [] else [Callback_mention msg (d_mentions d)])
                      \<and> frm msg = MattermostPerson
                           \<lparr>person_userid = d_userid d, person_channelid = d_channelid d,
                            person_teamid = JStr (teamid st)\<rparr>
                      \<and> to msg = MattermostPerson
                           \<lparr>person_userid = JStr (bot_userid st),
                            person_channelid = d_channelid d,
                            person_teamid = JStr (teamid st)\<rparr>)"
    if "d_channel_type d = JStr ''D''"
    using address_direct [OF that, of plat st1] a f by (auto simp: fired_def)
  have emits: "r = Inr ()
                       \<and> (\<exists>msg. fired st st' = Callback_message msg
                              # (if d_mentions d = [] then []
                                 else [Callback_mention msg (d_mentions d)])
                            \<and> frm msg = MattermostRoomOccupant
                                 \<lparr>person_userid = d_userid d, person_channelid = d_channelid d,
                                  person_teamid = JStr (teamid st)\<rparr>
                                 \<lparr>room_name = n, room_teamid = JStr (teamid st),
                                  room_id = d_channelid d\<rparr>
                            \<and> to msg = MattermostRoom
                                 \<lparr>room_name = JStr (if startswith cn ''~'' then drop 1 cn else cn),
                                  room_teamid = JStr (teamid st), room_id = JNull\<rparr>)"
    if "d_channel_type d = JStr ''O'' \<or> d_channel_type d = JStr ''P''"
      and "plat (calls st1) (Get_channel (d_channelid d)) = Inr ch
                   \<and> subscript ch ''name'' = Inr n \<and> d_channel d = JStr cn"
    for ch n cn
    using address_group_emits [of d plat st1 ch n cn] that a f by (auto simp: fired_def)
  have fails: "(\<exists>e. r = Inl e) \<and> fired st st' = []"
    if "d_channel_type d = JStr ''O'' \<or> d_channel_type d = JStr ''P''"
      and "\<forall>ch n. plat (calls st1) (Get_channel (d_channelid d)) = Inr ch
                            \<longrightarrow> subscript ch ''name'' \<noteq> Inr n"
    using address_group_fails [of d plat st1 r st'] that a cb by (auto simp: fired_def)
  have group: "(\<exists>e. r = Inl e \<and> fired st st' = [])
                \<or> (r = Inr ()
                    \<and> (\<exists>msg. fired st st' = Callback_message msg
                             # (if d_mentions d = [] then [] else [Callback_mention msg (d_mentions d)])
                          \<and> is_RoomOccupant (frm msg) \<and> is_Room (to msg)))"
    if "d_channel_type d = JStr ''O'' \<or> d_channel_type d = JStr ''P''"
    using address_group [OF that a] cb by (auto simp: fired_def)
  have other: "r = Inr () \<and> fired st st' = []"
    if "d_channel_type d \<noteq> JStr ''D'' \<and> d_channel_type d \<noteq> JStr ''O''
              \<and> d_channel_type d \<noteq> JStr ''P''"
  proof -
    have "address plat d st1 = (Inr (), log WARNING st1)"
      using that address_unknown [of d plat st1] by simp
    then show ?thesis using a cb by (auto simp: fired_def log_def)
  qed
  show ?thesis
    using link direct emits fails group other by blast
qed


theorem addressing_witness:
  "(\<exists>d st1. prepare scenario_loads scenario_platform direct_event scenario_bot = (Next d, st1)
        \<and> d_channel_type d = JStr ''D'')
   \<and> (\<exists>msg st'. message_event_handler scenario_loads scenario_platform direct_event scenario_bot
                  = (Inr (), st')
        \<and> fired scenario_bot st' = [Callback_message msg]
        \<and> frm msg = MattermostPerson
             \<lparr>person_userid = JStr ''U2'', person_channelid = JStr ''D7'',
              person_teamid = JStr ''T1''\<rparr>
        \<and> to msg = MattermostPerson
             \<lparr>person_userid = JStr ''BOT'', person_channelid = JStr ''D7'',
              person_teamid = JStr ''T1''\<rparr>)
   \<and> (\<exists>d st1. prepare scenario_loads scenario_platform scenario_event scenario_bot = (Next d, st1)
        \<and> d_channel_type d = JStr ''O'')
   \<and> (\<exists>msg st'. message_event_handler scenario_loads scenario_platform scenario_event scenario_bot
                  = (Inr (), st')
        \<and> fired scenario_bot st' = [Callback_message msg]
        \<and> frm msg = MattermostRoomOccupant
             \<lparr>person_userid = JStr ''U1'', person_channelid = JStr ''C1'',
              person_teamid = JStr ''T1''\<rparr>
             \<lparr>room_name = JStr ''general'', room_teamid = JStr ''T1'', room_id = JStr ''C1''\<rparr>
        \<and> to msg = MattermostRoom
             \<lparr>room_name = JStr ''general'', room_teamid = JStr ''T1'', room_id = JNull\<rparr>)
   \<and> (\<exists>d st1. prepare scenario_loads scenario_platform private_event scenario_bot = (Next d, st1)
        \<and> d_channel_type d = JStr ''P'')
   \<and> (\<exists>msg st'. message_event_handler scenario_loads scenario_platform private_event scenario_bot
                  = (Inr (), st')
        \<and> fired scenario_bot st' = [Callback_message msg]
        \<and> frm msg = MattermostRoomOccupant
             \<lparr>person_userid = JStr ''U1'', person_channelid = JStr ''C2'',
              person_teamid = JStr ''T1''\<rparr>
             \<lparr>room_name = JStr ''general'', room_teamid = JStr ''T1'', room_id = JStr ''C2''\<rparr>
        \<and> to msg = MattermostRoom
             \<lparr>room_name = JStr ''staff'', room_teamid = JStr ''T1'', room_id = JNull\<rparr>)
   \<and> (\<exists>d st1. prepare scenario_loads scenario_platform group_message_event scenario_bot
                 = (Next d, st1)
        \<and> d_channel_type d = JStr ''G'')
   \<and> (\<exists>st'. message_event_handler scenario_loads scenario_platform group_message_event
               scenario_bot = (Inr (), st')
        \<and> fired scenario_bot st' = [])"
proof -
  have bot: "bot_userid scenario_bot = ''BOT''" "teamid scenario_bot = ''T1''"
    by (simp_all add: scenario_bot_def)
  have named: "scenario_platform h (Get_channel (JStr c))
                 = Inr (JObj [(''id'', JStr c), (''name'', JStr ''general'')])
               \<and> subscript (JObj [(''id'', JStr c), (''name'', JStr ''general'')]) ''name''
                 = Inr (JStr ''general'')" for h c
    by (simp add: scenario_platform_def)
  \<comment> \<open>a direct message\<close>
  obtain d1 s1 where p1: "prepare scenario_loads scenario_platform direct_event scenario_bot = (Next d1, s1)"
    and t1: "d_channel_type d1 = JStr ''D''" and f1: "d_channelid d1 = JStr ''D7''"
      "d_userid d1 = JStr ''U2''" "d_mentions d1 = []"
    by (simp add: handler_defs scenario_defs)
  obtain r1 e1 where h1: "message_event_handler scenario_loads scenario_platform direct_event scenario_bot = (r1, e1)"
    by (cases "message_event_handler scenario_loads scenario_platform direct_event scenario_bot")
  have c1: "\<exists>msg st'. message_event_handler scenario_loads scenario_platform direct_event scenario_bot
                  = (Inr (), st')
        \<and> fired scenario_bot st' = [Callback_message msg]
        \<and> frm msg = MattermostPerson
             \<lparr>person_userid = JStr ''U2'', person_channelid = JStr ''D7'',
              person_teamid = JStr ''T1''\<rparr>
        \<and> to msg = MattermostPerson
             \<lparr>person_userid = JStr ''BOT'', person_channelid = JStr ''D7'',
              person_teamid = JStr ''T1''\<rparr>"
    using addressing [OF p1 h1] t1 f1 h1 bot by auto
  \<comment> \<open>an open channel\<close>
  obtain d2 s2 where p2: "prepare scenario_loads scenario_platform scenario_event scenario_bot = (Next d2, s2)"
    and t2: "d_channel_type d2 = JStr ''O''" and f2: "d_channelid d2 = JStr ''C1''"
      "d_userid d2 = JStr ''U1''" "d_mentions d2 = []" "d_channel d2 = JStr ''general''"
    by (simp add: handler_defs scenario_defs)
  obtain r2 e2 where h2: "message_event_handler scenario_loads scenario_platform scenario_event scenario_bot = (r2, e2)"
    by (cases "message_event_handler scenario_loads scenario_platform scenario_event scenario_bot")
  have c2: "\<exists>msg st'. message_event_handler scenario_loads scenario_platform scenario_event scenario_bot
                  = (Inr (), st')
        \<and> fired scenario_bot st' = [Callback_message msg]
        \<and> frm msg = MattermostRoomOccupant
             \<lparr>person_userid = JStr ''U1'', person_channelid = JStr ''C1'',
              person_teamid = JStr ''T1''\<rparr>
             \<lparr>room_name = JStr ''general'', room_teamid = JStr ''T1'', room_id = JStr ''C1''\<rparr>
        \<and> to msg = MattermostRoom
             \<lparr>room_name = JStr ''general'', room_teamid = JStr ''T1'', room_id = JNull\<rparr>"
    using addressing [OF p2 h2] t2 f2 h2 bot named [of "calls s2" "''C1''"]
    by (auto simp: startswith_def)
  \<comment> \<open>a private channel\<close>
  obtain d3 s3 where p3: "prepare scenario_loads scenario_platform private_event scenario_bot = (Next d3, s3)"
    and t3: "d_channel_type d3 = JStr ''P''" and f3: "d_channelid d3 = JStr ''C2''"
      "d_userid d3 = JStr ''U1''" "d_mentions d3 = []" "d_channel d3 = JStr ''~staff''"
    by (simp add: handler_defs scenario_defs)
  obtain r3 e3 where h3: "message_event_handler scenario_loads scenario_platform private_event scenario_bot = (r3, e3)"
    by (cases "message_event_handler scenario_loads scenario_platform private_event scenario_bot")
  have c3: "\<exists>msg st'. message_event_handler scenario_loads scenario_platform private_event scenario_bot
                  = (Inr (), st')
        \<and> fired scenario_bot st' = [Callback_message msg]
        \<and> frm msg = MattermostRoomOccupant
             \<lparr>person_userid = JStr ''U1'', person_channelid = JStr ''C2'',
              person_teamid = JStr ''T1''\<rparr>
             \<lparr>room_name = JStr ''general'', room_teamid = JStr ''T1'', room_id = JStr ''C2''\<rparr>
        \<and> to msg = MattermostRoom
             \<lparr>room_name = JStr ''staff'', room_teamid = JStr ''T1'', room_id = JNull\<rparr>"
    using addressing [OF p3 h3] t3 f3 h3 bot named [of "calls s3" "''C2''"]
    by (auto simp: startswith_def)
  \<comment> \<open>a channel of another type\<close>
  obtain d4 s4 where p4: "prepare scenario_loads scenario_platform group_message_event scenario_bot = (Next d4, s4)"
    and t4: "d_channel_type d4 = JStr ''G''"
    by (simp add: handler_defs scenario_defs)
  obtain r4 e4 where h4: "message_event_handler scenario_loads scenario_platform group_message_event scenario_bot = (r4, e4)"
    by (cases "message_event_handler scenario_loads scenario_platform group_message_event scenario_bot")
  have c4: "\<exists>st'. message_event_handler scenario_loads scenario_platform group_message_event
               scenario_bot = (Inr (), st')
        \<and> fired scenario_bot st' = []"
    using addressing [OF p4 h4] t4 h4 by auto
  show ?thesis using p1 t1 c1 p2 t2 c2 p3 t3 c3 p4 t4 c4 by blast
qed

text \<open>
  Claim C6 as stated fails for the types \<open>O\<close> and \<open>P\<close>: on a platform that refuses
  the lookup of the channel, the specification's event of type \<open>O\<close> reaches the
  addressing step, the handler raises the platform's error and no callback fires.
\<close>

theorem group_event_not_emitted:
  "(\<exists>data. subscript scenario_event ''data'' = Inr data
      \<and> subscript data ''channel_type'' = Inr (JStr ''O''))
   \<and> (\<exists>d st1. prepare scenario_loads refusing_platform scenario_event scenario_bot = (Next d, st1)
        \<and> d_channel_type d = JStr ''O'')
   \<and> (\<exists>st'. message_event_handler scenario_loads refusing_platform scenario_event scenario_bot
               = (Inl (DriverError ResourceNotFound), st')
        \<and> fired scenario_bot st' = [])"
  by (simp add: handler_defs scenario_defs fired_def)

subsection \<open>The sender id\<close>

lemma read_embedded_post_userid:
  assumes "read_embedded_post loads data = Next (body, post_id, file_ids, userid)"
  shows "\<exists>raw post. subscript data ''post'' = Inr raw \<and> json_loads loads raw = Inr post
           \<and> subscript post ''user_id'' = Inr userid"
  using assms unfolding read_embedded_post_def
  by (auto dest!: bind_result_Next split: if_splits)

lemma read_post_sender:
  assumes "read_post loads data = Next (body, post_id, file_ids, userid)"
  shows "truthy userid
         \<and> (\<forall>v. subscript data ''user_id'' = Inr v \<longrightarrow> userid = v)
         \<and> (py_in ''user_id'' data = Inr False
              \<longrightarrow> (\<exists>raw post. subscript data ''post'' = Inr raw \<and> json_loads loads raw = Inr post
                     \<and> subscript post ''user_id'' = Inr userid))"
proof -
  from assms obtain has_post where hp: "py_in ''post'' data = Inr has_post"
    and 1: "bind_flow
       (if has_post then read_embedded_post loads data
        else Next (JStr [], JStr [], JNull, JNull))
       (\<lambda>(text, post_id, file_ids, userid').
     bind_result (py_in ''user_id'' data) (\<lambda>has_user_id.
     bind_result (if has_user_id then subscript data ''user_id'' else Inr userid') (\<lambda>userid.
     if \<not> truthy userid then Return ERROR
     else Next (text, post_id, file_ids, userid)))) = Next (body, post_id, file_ids, userid)"
    unfolding read_post_def by (blast dest: bind_result_Next)
  from 1 obtain b0 p0 f0 u0 where
    e: "(if has_post then read_embedded_post loads data
        else Next (JStr [], JStr [], JNull, JNull)) = Next (b0, p0, f0, u0)"
    and 2: "bind_result (py_in ''user_id'' data) (\<lambda>has_user_id.
     bind_result (if has_user_id then subscript data ''user_id'' else Inr u0) (\<lambda>userid.
     if \<not> truthy userid then Return ERROR
     else Next (b0, p0, f0, userid))) = Next (body, post_id, file_ids, userid)"
    by (auto dest!: bind_flow_Next)
  from 2 obtain has_user_id where hu: "py_in ''user_id'' data = Inr has_user_id"
    and 3: "(if has_user_id then subscript data ''user_id'' else Inr u0) = Inr userid"
    and tr: "truthy userid"
    by (auto dest!: bind_result_Next split: if_splits)
  have a: "\<forall>v. subscript data ''user_id'' = Inr v \<longrightarrow> userid = v"
  proof (intro allI impI)
    fix v assume v: "subscript data ''user_id'' = Inr v"
    then have "py_in ''user_id'' data = Inr True" by (rule subscript_py_in)
    then show "userid = v" using hu 3 v by simp
  qed
  have b: "\<exists>raw post. subscript data ''post'' = Inr raw \<and> json_loads loads raw = Inr post
                     \<and> subscript post ''user_id'' = Inr userid"
    if "py_in ''user_id'' data = Inr False"
  proof -
    have u: "u0 = userid" using that hu 3 by simp
    show ?thesis
    proof (cases has_post)
      case True
      then show ?thesis using e u read_embedded_post_userid [of loads data b0 p0 f0 u0] by simp
    next
      case False
      then have "u0 = JNull" using e by simp
      then show ?thesis using u tr by simp
    qed
  qed
  show ?thesis using tr a b by blast
qed

lemma handler_fired_sender:
  assumes h: "message_event_handler loads plat message st = (r, st')"
    and data: "subscript message ''data'' = Inr data"
    and ne: "fired st st' \<noteq> []"
  shows "\<exists>body post_id file_ids userid.
           read_post loads data = Next (body, post_id, file_ids, userid)
           \<and> (\<forall>msg. Callback_message msg \<in> set (fired st st') \<longrightarrow> sender_userid (frm msg) = userid)"
proof -
  obtain f st1 where p: "prepare loads plat message st = (f, st1)"
    by (cases "prepare loads plat message st")
  obtain d where f: "f = Next d"
    using prepare_not_Next [OF p _ h] ne by (cases f) auto
  note p = p [unfolded f]
  from prepare_Next [OF p] obtain data' post_id file_ids where
    c: "read_channel (teamid st) message = Next (data', d_channelid d, d_channel_type d, d_channel d)"
    and rp: "read_post loads data' = Next (d_text d, post_id, file_ids, d_userid d)"
    by blast
  have "data' = data" using read_channel_data [OF c] data by simp
  then have rp: "read_post loads data = Next (d_text d, post_id, file_ids, d_userid d)"
    using rp by simp
  have a: "address plat d st1 = (r, st')" using h p by (simp add: message_event_handler_def)
  have cb: "callbacks st1 = callbacks st" using prepare_frame [OF p] by simp
  have "\<forall>msg. Callback_message msg \<in> set (fired st st') \<longrightarrow> sender_userid (frm msg) = d_userid d"
  proof (cases "d_channel_type d = JStr ''D''")
    case True
    from address_direct [OF True, of plat st1] a cb show ?thesis
      by (auto simp: fired_def split: if_splits)
  next
    case nd: False
    show ?thesis
    proof (cases "d_channel_type d = JStr ''O'' \<or> d_channel_type d = JStr ''P''")
      case True
      from address_group [OF True a] cb show ?thesis
        by (auto simp: fired_def split: if_splits)
    next
      case False
      then have "address plat d st1 = (Inr (), log WARNING st1)"
        using nd address_unknown [of d plat st1] by simp
      then show ?thesis using a cb by (auto simp: fired_def log_def)
    qed
  qed
  then show ?thesis using rp by blast
qed

text \<open>
  Claim C2, amended. In the message event handler the sender id is \<open>data.user_id\<close>
  whenever \<open>data\<close> has that key, also when an embedded post is present; the post's
  \<open>user_id\<close> is the sender id only when \<open>data\<close> has no \<open>user_id\<close>. Every message
  the handler emits carries that id and the id is truthy: when it is absent from both
  sources, or is \<^verbatim>\<open>None\<close> or empty, no callback fires.
\<close>

theorem sender_id_source:
  assumes "message_event_handler loads plat message st = (r, st')"
    and "subscript message ''data'' = Inr data"
  shows "(\<forall>msg. Callback_message msg \<in> set (fired st st')
            \<longrightarrow> truthy (sender_userid (frm msg))
                \<and> (\<forall>v. subscript data ''user_id'' = Inr v \<longrightarrow> sender_userid (frm msg) = v)
                \<and> (py_in ''user_id'' data = Inr False
                     \<longrightarrow> (\<exists>raw post. subscript data ''post'' = Inr raw
                            \<and> json_loads loads raw = Inr post
                            \<and> subscript post ''user_id'' = Inr (sender_userid (frm msg)))))
         \<and> ((\<exists>v. subscript data ''user_id'' = Inr v \<and> \<not> truthy v) \<longrightarrow> fired st st' = [])
         \<and> (py_in ''user_id'' data = Inr False \<and> py_in ''post'' data = Inr False
              \<longrightarrow> fired st st' = [])
         \<and> (py_in ''user_id'' data = Inr False
              \<and> (\<exists>raw post v. subscript data ''post'' = Inr raw \<and> json_loads loads raw = Inr post
                    \<and> subscript post ''user_id'' = Inr v \<and> \<not> truthy v)
              \<longrightarrow> fired st st' = [])"
proof (cases "fired st st' = []")
  case True
  then show ?thesis by simp
next
  case False
  from handler_fired_sender [OF assms False] obtain body post_id file_ids userid where
    rp: "read_post loads data = Next (body, post_id, file_ids, userid)"
    and s: "\<forall>msg. Callback_message msg \<in> set (fired st st') \<longrightarrow> sender_userid (frm msg) = userid"
    by blast
  note u = read_post_sender [OF rp]
  have 1: "\<forall>msg. Callback_message msg \<in> set (fired st st')
            \<longrightarrow> truthy (sender_userid (frm msg))
                \<and> (\<forall>v. subscript data ''user_id'' = Inr v \<longrightarrow> sender_userid (frm msg) = v)
                \<and> (py_in ''user_id'' data = Inr False
                     \<longrightarrow> (\<exists>raw post. subscript data ''post'' = Inr raw
                            \<and> json_loads loads raw = Inr post
                            \<and> subscript post ''user_id'' = Inr (sender_userid (frm msg))))"
    using s u by auto
  have 2: "\<not> (\<exists>v. subscript data ''user_id'' = Inr v \<and> \<not> truthy v)"
    using u by auto
  have 3: "\<not> (py_in ''user_id'' data = Inr False \<and> py_in ''post'' data = Inr False)"
    using u by (auto dest: subscript_py_in)
  have 4: "\<not> (py_in ''user_id'' data = Inr False
              \<and> (\<exists>raw post v. subscript data ''post'' = Inr raw \<and> json_loads loads raw = Inr post
                    \<and> subscript post ''user_id'' = Inr v \<and> \<not> truthy v))"
    using u by auto
  show ?thesis using 1 2 3 4 by blast
qed


theorem sender_id_source_witness:
  "(\<exists>data msg st'.
      message_event_handler scenario_loads scenario_platform direct_event scenario_bot
        = (Inr (), st')
      \<and> subscript direct_event ''data'' = Inr data
      \<and> Callback_message msg \<in> set (fired scenario_bot st')
      \<and> subscript data ''user_id'' = Inr (JStr ''U2'')
      \<and> sender_userid (frm msg) = JStr ''U2'')
   \<and> (\<exists>data msg st'.
      message_event_handler scenario_loads scenario_platform scenario_event scenario_bot
        = (Inr (), st')
      \<and> subscript scenario_event ''data'' = Inr data
      \<and> Callback_message msg \<in> set (fired scenario_bot st')
      \<and> py_in ''user_id'' data = Inr False
      \<and> subscript data ''post'' = Inr (JStr ''post-P1'')
      \<and> json_loads scenario_loads (JStr ''post-P1'') = Inr scenario_post
      \<and> subscript scenario_post ''user_id'' = Inr (JStr ''U1'')
      \<and> sender_userid (frm msg) = JStr ''U1'')"
proof -
  obtain msg st' where
    h: "message_event_handler scenario_loads scenario_platform direct_event scenario_bot
          = (Inr (), st')"
    and f: "fired scenario_bot st' = [Callback_message msg]"
    by (simp add: handler_defs scenario_defs fired_def)
  obtain data where d: "subscript direct_event ''data'' = Inr data"
    and u: "subscript data ''user_id'' = Inr (JStr ''U2'')"
    by (simp add: direct_event_def)
  have m: "Callback_message msg \<in> set (fired scenario_bot st')" using f by simp
  have s: "sender_userid (frm msg) = JStr ''U2''"
    using sender_id_source [OF h d] m u by blast
  obtain msg' st'' where
    h': "message_event_handler scenario_loads scenario_platform scenario_event scenario_bot
          = (Inr (), st'')"
    and f': "fired scenario_bot st'' = [Callback_message msg']"
    by (simp add: handler_defs scenario_defs fired_def)
  obtain data' where d': "subscript scenario_event ''data'' = Inr data'"
    and u': "py_in ''user_id'' data' = Inr False"
    and p': "subscript data' ''post'' = Inr (JStr ''post-P1'')"
    by (simp add: scenario_event_def)
  have l: "json_loads scenario_loads (JStr ''post-P1'') = Inr scenario_post"
    by (simp add: json_loads_def scenario_loads_def)
  have pu: "subscript scenario_post ''user_id'' = Inr (JStr ''U1'')"
    by (simp add: scenario_post_def)
  have m': "Callback_message msg' \<in> set (fired scenario_bot st'')" using f' by simp
  from sender_id_source [OF h' d'] m' u' obtain raw post where
    "subscript data' ''post'' = Inr raw" "json_loads scenario_loads raw = Inr post"
    "subscript post ''user_id'' = Inr (sender_userid (frm msg'))"
    by blast
  then have s': "sender_userid (frm msg') = JStr ''U1''"
    using p' l pu by simp
  show ?thesis using h d m u s h' d' m' u' p' l pu s' by blast
qed

text \<open>
  Claim C2 as stated fails: a direct message whose embedded post names the user
  \<open>U1\<close> while \<open>data.user_id\<close> is \<open>U2\<close> is emitted with the sender \<open>U2\<close>.
\<close>

theorem post_user_id_overridden:
  "(\<exists>data. subscript direct_event ''data'' = Inr data
      \<and> subscript data ''post'' = Inr (JStr ''post-P1'')
      \<and> subscript data ''user_id'' = Inr (JStr ''U2''))
   \<and> json_loads scenario_loads (JStr ''post-P1'') = Inr scenario_post
   \<and> subscript scenario_post ''user_id'' = Inr (JStr ''U1'')
   \<and> (\<exists>msg st'.
        message_event_handler scenario_loads scenario_platform direct_event scenario_bot
          = (Inr (), st')
        \<and> fired scenario_bot st' = [Callback_message msg]
        \<and> frm msg = MattermostPerson
             \<lparr>person_userid = JStr ''U2'', person_channelid = JStr ''D7'',
              person_teamid = JStr ''T1''\<rparr>)"
  by (simp add: handler_defs scenario_defs fired_def)


end
